theory Spec2Isabelle
  imports Main "HOL-Library.AList"
begin

section \<open>The JavaScript the components rely on\<close>

text \<open>
  The two source files are React components written in TypeScript:
  \<^verbatim>\<open>app/components/workbench/DeploymentsView.tsx\<close> (the deployment panel with its form,
  its connection settings and its history) and \<^verbatim>\<open>app/components/ui/Slider.tsx\<close> (the pill
  selector).  Their logic is embedded as HOL functions; what they take from the language
  and from libraries (exceptions, \<^verbatim>\<open>String.prototype.includes\<close>, \<^verbatim>\<open>BigInt\<close>,
  \<^verbatim>\<open>parseInt\<close>, \<^verbatim>\<open>JSON\<close>, local storage, the WebContainer file system, ethers) is modelled
  in this section and the next ones, each with the behaviour ECMAScript gives it.

  Strings are \<^typ>\<open>string\<close>, read as sequences of ASCII characters.
\<close>

subsection \<open>Thrown values\<close>

text \<open>
  Anything can be thrown.  \<open>Error\<close>, \<open>TypeError\<close> and \<open>SyntaxError\<close> carry their
  message and are instances of \<^verbatim>\<open>Error\<close>; \<open>NonError\<close> stands for every other thrown
  value (a string, a plain object), for which \<^verbatim>\<open>error instanceof Error\<close> is false.
\<close>

datatype thrown = Error string | TypeError string | SyntaxError string | NonError string

fun instanceof_Error :: "thrown \<Rightarrow> bool" where
  "instanceof_Error (NonError _) = False"
| "instanceof_Error _ = True"

fun message :: "thrown \<Rightarrow> string" where
  "message (Error m) = m"
| "message (TypeError m) = m"
| "message (SyntaxError m) = m"
| "message (NonError m) = m"

text \<open>The settled state of the promise an \<^verbatim>\<open>async\<close> function returns.\<close>

datatype outcome = Resolved | Rejected thrown

subsection \<open>String methods\<close>

definition startsWith :: "string \<Rightarrow> string \<Rightarrow> bool" where
  "startsWith s p = (take (length p) s = p)"

definition endsWith :: "string \<Rightarrow> string \<Rightarrow> bool" where
  "endsWith s p = (length p \<le> length s \<and> drop (length s - length p) s = p)"

text \<open>\<^verbatim>\<open>s.includes(needle)\<close>: the needle starts at some position of \<open>s\<close>.\<close>

fun includes_str :: "string \<Rightarrow> string \<Rightarrow> bool" where
  "includes_str [] needle = (needle = [])"
| "includes_str (c # cs) needle = (startsWith (c # cs) needle \<or> includes_str cs needle)"

text \<open>\<^verbatim>\<open>s.replace(pat, rep)\<close> with a string pattern: only the first occurrence is replaced.\<close>

fun replace :: "string \<Rightarrow> string \<Rightarrow> string \<Rightarrow> string" where
  "replace [] pat rep = (if pat = [] then rep else [])"
| "replace (c # cs) pat rep =
     (if startsWith (c # cs) pat then rep @ drop (length pat) (c # cs)
      else c # replace cs pat rep)"

text \<open>A string is falsy exactly when it is empty.\<close>

definition falsy :: "string \<Rightarrow> bool" where
  "falsy s = (s = [])"

subsection \<open>Numbers, \<^verbatim>\<open>parseInt\<close> and \<^verbatim>\<open>BigInt\<close>\<close>

text \<open>
  The only numbers of the program are chain identifiers: the initial \<open>1\<close> and what
  \<^verbatim>\<open>parseInt\<close> returns, which is an integral double, \<open>NaN\<close> or an infinity.
  \<open>Num n\<close> is the number whose value is the integer \<open>n\<close>.  Negative zero is not told
  apart from zero, as \<^verbatim>\<open>===\<close> does not.
\<close>

datatype number = Num int | NaN | PosInfinity | NegInfinity

text \<open>
  A number is a double: 53 significant bits.  The Number value of an integer is the
  nearest such value, the one with an even significand when two are equally near, and an
  infinity from \<open>2 ^ 1024\<close> on.  \<open>nearest_double\<close> is applied to magnitudes.
\<close>

function bit_length :: "int \<Rightarrow> nat" where
  "bit_length n = (if n \<le> 0 then 0 else Suc (bit_length (n div 2)))"
  by pat_completeness auto
termination
  by (relation "measure nat") auto

definition nearest_double :: "int \<Rightarrow> int" where
  "nearest_double n =
     (if bit_length n \<le> 53 then n
      else
        (let unit = 2 ^ (bit_length n - 53);
             significand = n div unit;
             rest = n mod unit
         in if 2 * rest > unit \<or> (2 * rest = unit \<and> odd significand)
            then (significand + 1) * unit
            else significand * unit))"

definition to_Number :: "int \<Rightarrow> number" where
  "to_Number n =
     (let magnitude = nearest_double \<bar>n\<bar> in
      if magnitude \<ge> 2 ^ 1024 then (if n < 0 then NegInfinity else PosInfinity)
      else if n < 0 then Num (- magnitude)
      else Num magnitude)"

definition is_whitespace :: "char \<Rightarrow> bool" where
  "is_whitespace c = ((of_char c :: nat) \<in> {9, 10, 11, 12, 13, 32})"

text \<open>The value of a character as a digit (\<open>0-9\<close>, \<open>a-z\<close>, \<open>A-Z\<close>), and in a radix.\<close>

definition digit_of :: "char \<Rightarrow> nat option" where
  "digit_of c =
     (let k = (of_char c :: nat) in
      if 48 \<le> k \<and> k \<le> 57 then Some (k - 48)
      else if 97 \<le> k \<and> k \<le> 122 then Some (k - 87)
      else if 65 \<le> k \<and> k \<le> 90 then Some (k - 55)
      else None)"

definition is_digit :: "nat \<Rightarrow> char \<Rightarrow> bool" where
  "is_digit radix c = (case digit_of c of None \<Rightarrow> False | Some d \<Rightarrow> d < radix)"

definition digits_value :: "nat \<Rightarrow> string \<Rightarrow> int" where
  "digits_value radix ds = foldl (\<lambda>acc c. acc * int radix + int (the (digit_of c))) 0 ds"

text \<open>
  \<^verbatim>\<open>parseInt(inputString)\<close> with no radix: leading white space is skipped, a sign is
  read, a \<open>0x\<close> prefix selects radix 16, and the longest run of digits is the value;
  with no digit at all the result is \<open>NaN\<close>.  What follows the digits is ignored.
  The digits are read exactly, whatever their number.
\<close>

definition parseInt :: "string \<Rightarrow> number" where
  "parseInt inputString =
     (let S = dropWhile is_whitespace inputString;
          sign = (if S \<noteq> [] \<and> hd S = CHR ''-'' then - 1 else 1 :: int);
          S1 = (if S \<noteq> [] \<and> (hd S = CHR ''+'' \<or> hd S = CHR ''-'') then tl S else S);
          hex = (startsWith S1 ''0x'' \<or> startsWith S1 ''0X'');
          R = (if hex then 16 else 10);
          S2 = (if hex then drop 2 S1 else S1);
          Z = takeWhile (is_digit R) S2
      in if Z = [] then NaN else to_Number (sign * digits_value R Z))"

text \<open>
  What reading a property of a plain object whose own properties are strings gives: the
  string of an own property; for a name the object does not have, the member of
  \<^verbatim>\<open>Object.prototype\<close> of that name (a function, or for \<^verbatim>\<open>__proto__\<close> the prototype
  itself) when there is one; and \<^verbatim>\<open>undefined\<close> otherwise.
\<close>

datatype property_read = String_value string | Prototype_member string | Undefined_value

text \<open>The text \<^verbatim>\<open>ToString\<close> gives for a member of \<^verbatim>\<open>Object.prototype\<close>.\<close>

definition member_text :: "string \<Rightarrow> string" where
  "member_text key =
     (if key = ''__proto__'' then ''[object Object]''
      else if key = ''constructor'' then ''function Object() { [native code] }''
      else ''function '' @ key @ ''() { [native code] }'')"

text \<open>
  \<^verbatim>\<open>BigInt(value)\<close> on a string: white space is trimmed on both sides; the empty string is
  \<open>0n\<close>; otherwise the text must be decimal digits with an optional sign, or \<open>0x\<close>,
  \<open>0o\<close>, \<open>0b\<close> followed by digits of that radix (no sign); anything else throws a
  \<open>SyntaxError\<close>.  On \<^verbatim>\<open>undefined\<close> it throws a \<open>TypeError\<close>.  A function or an object
  is converted to its text first, which is never the text of an integer.
\<close>

definition trim :: "string \<Rightarrow> string" where
  "trim s = rev (dropWhile is_whitespace (rev (dropWhile is_whitespace s)))"

definition all_digits :: "nat \<Rightarrow> string \<Rightarrow> bool" where
  "all_digits radix ds = (ds \<noteq> [] \<and> list_all (is_digit radix) ds)"

definition StringToBigInt :: "string \<Rightarrow> int option" where
  "StringToBigInt str =
     (let s = trim str in
      if s = [] then Some 0
      else if startsWith s ''0x'' \<or> startsWith s ''0X'' then
        (if all_digits 16 (drop 2 s) then Some (digits_value 16 (drop 2 s)) else None)
      else if startsWith s ''0o'' \<or> startsWith s ''0O'' then
        (if all_digits 8 (drop 2 s) then Some (digits_value 8 (drop 2 s)) else None)
      else if startsWith s ''0b'' \<or> startsWith s ''0B'' then
        (if all_digits 2 (drop 2 s) then Some (digits_value 2 (drop 2 s)) else None)
      else if hd s = CHR ''-'' then
        (if all_digits 10 (tl s) then Some (- digits_value 10 (tl s)) else None)
      else if hd s = CHR ''+'' then
        (if all_digits 10 (tl s) then Some (digits_value 10 (tl s)) else None)
      else (if all_digits 10 s then Some (digits_value 10 s) else None))"

definition BigInt :: "property_read \<Rightarrow> thrown + int" where
  "BigInt v =
     (case v of
        Undefined_value \<Rightarrow> Inl (TypeError ''Cannot convert undefined to a BigInt'')
      | Prototype_member key \<Rightarrow>
          Inl (SyntaxError (''Cannot convert '' @ member_text key @ '' to a BigInt''))
      | String_value str \<Rightarrow>
          (case StringToBigInt str of
             None \<Rightarrow> Inl (SyntaxError (''Cannot convert '' @ str @ '' to a BigInt''))
           | Some n \<Rightarrow> Inr n))"

text \<open>The decimal text of an integer, as a template literal prints a \<^verbatim>\<open>bigint\<close>.\<close>

fun decimal_nat :: "nat \<Rightarrow> string" where
  "decimal_nat n =
     (if n < 10 then [char_of (48 + n)] else decimal_nat (n div 10) @ [char_of (48 + n mod 10)])"

definition decimal :: "int \<Rightarrow> string" where
  "decimal i = (if i < 0 then CHR ''-'' # decimal_nat (nat (- i)) else decimal_nat (nat i))"

subsection \<open>JSON and local storage\<close>

text \<open>
  The values \<^verbatim>\<open>JSON.parse\<close> returns and \<^verbatim>\<open>JSON.stringify\<close> takes.  An object is the list of
  its properties in property order.
\<close>

datatype jsval =
    Null
  | Bool bool
  | Number number
  | Str string
  | Array "jsval list"
  | Object "(string \<times> jsval) list"

text \<open>
  A string is modelled by what \<^verbatim>\<open>JSON.parse\<close> makes of it: \<open>JSONText v\<close> is a string that is
  JSON text and parses to \<open>v\<close>; \<open>NotJSON s\<close> is the string \<open>s\<close>, which is not JSON text,
  so that \<^verbatim>\<open>JSON.parse\<close> throws a \<open>SyntaxError\<close> on it.  JSON text is never empty;
  the empty string is \<open>NotJSON []\<close>.
\<close>

datatype 'a json_text = JSONText 'a | NotJSON string

fun truthy :: "'a json_text \<Rightarrow> bool" where
  "truthy (JSONText _) = True"
| "truthy (NotJSON s) = (s \<noteq> [])"

fun JSON_parse :: "'a json_text \<Rightarrow> thrown + 'a" where
  "JSON_parse (JSONText v) = Inr v"
| "JSON_parse (NotJSON s) = Inl (SyntaxError (''Unexpected token in JSON: '' @ s))"

text \<open>
  \<^verbatim>\<open>JSON.stringify\<close> writes a finite number as a number and \<open>NaN\<close> and the infinities as
  \<^verbatim>\<open>null\<close>; everything else is written as it is.  \<open>json_value v\<close> is the value that the
  text written for \<open>v\<close> parses to.
\<close>

fun json_value :: "jsval \<Rightarrow> jsval" where
  "json_value Null = Null"
| "json_value (Bool b) = Bool b"
| "json_value (Number (Num n)) = Number (Num n)"
| "json_value (Number NaN) = Null"
| "json_value (Number PosInfinity) = Null"
| "json_value (Number NegInfinity) = Null"
| "json_value (Str s) = Str s"
| "json_value (Array vs) = Array (map json_value vs)"
| "json_value (Object ps) = Object (map (\<lambda>(k, v). (k, json_value v)) ps)"

definition JSON_stringify :: "jsval \<Rightarrow> jsval json_text" where
  "JSON_stringify v = JSONText (json_value v)"

text \<open>Local storage: \<^verbatim>\<open>getItem\<close> of a missing key is \<^verbatim>\<open>null\<close>, here \<open>None\<close>.\<close>

type_synonym localStorage = "string \<rightharpoonup> jsval json_text"

definition getItem :: "localStorage \<Rightarrow> string \<Rightarrow> jsval json_text option" where
  "getItem storage key = storage key"

definition setItem :: "localStorage \<Rightarrow> string \<Rightarrow> jsval json_text \<Rightarrow> localStorage" where
  "setItem storage key v = storage(key \<mapsto> v)"

section \<open>The pill selector (\<^verbatim>\<open>Slider.tsx\<close>)\<close>

text \<open>
  The selector is generic in the type \<open>T\<close> of its option values, which at run time are
  JavaScript values.  An object is known by its reference only: two objects are the same
  value exactly when they are the same reference, whatever they contain.
\<close>

datatype js_any =
    Undefined
  | Nil
  | Boolean bool
  | Numeric number
  | Text string
  | Reference nat

text \<open>\<^verbatim>\<open>x === y\<close>: the same primitive or the same reference; \<open>NaN\<close> equals nothing.\<close>

fun strict_equals :: "js_any \<Rightarrow> js_any \<Rightarrow> bool" where
  "strict_equals (Numeric NaN) y = False"
| "strict_equals x (Numeric NaN) = False"
| "strict_equals x y = (x = y)"

record SliderOption =
  option_value :: js_any
  option_text :: string

text \<open>
  The callback \<^verbatim>\<open>setSelected\<close> is optional; when given, calling it with a value changes the
  state \<open>'s\<close> of whoever owns the selector.
\<close>

record 's SliderProps =
  selected :: js_any
  options :: "SliderOption list"
  setSelected :: "(js_any \<Rightarrow> 's \<Rightarrow> 's) option"

record 's SliderButtonProps =
  button_selected :: bool
  children :: string
  button_setSelected :: "'s \<Rightarrow> 's"

text \<open>
  \<^verbatim>\<open>Slider\<close> renders one \<^verbatim>\<open>SliderButton\<close> per option, in order.  \<^verbatim>\<open>setSelected?.(option.value)\<close>
  does nothing when there is no callback.
\<close>

definition Slider :: "'s SliderProps \<Rightarrow> 's SliderButtonProps list" where
  "Slider props =
     map (\<lambda>option.
            \<lparr> button_selected = strict_equals (selected props) (option_value option),
              children = option_text option,
              button_setSelected =
                (case setSelected props of
                   None \<Rightarrow> (\<lambda>s. s)
                 | Some callback \<Rightarrow> callback (option_value option)) \<rparr>)
         (options props)"

text \<open>
  \<^verbatim>\<open>SliderButton\<close> shows the accent colour and the pill behind the label exactly when its
  \<^verbatim>\<open>selected\<close> property is true, and calls \<^verbatim>\<open>setSelected\<close> when it is clicked.
\<close>

definition highlighted :: "'s SliderButtonProps \<Rightarrow> bool" where
  "highlighted button = button_selected button"

definition onClick :: "'s SliderButtonProps \<Rightarrow> 's \<Rightarrow> 's" where
  "onClick button = button_setSelected button"

section \<open>The data of the deployment panel (\<^verbatim>\<open>DeploymentsView.tsx\<close>)\<close>

text \<open>
  The interfaces of the source are records with the source's field names; where two
  interfaces share a field name, the later record carries a prefix (\<open>abi_type\<close> is the
  \<^verbatim>\<open>type\<close> of a \<^verbatim>\<open>ContractABI\<close> entry, \<open>out_abi\<close> and \<open>evm_bytecode_object\<close> are
  \<^verbatim>\<open>abi\<close> and \<^verbatim>\<open>evm.bytecode.object\<close> of a \<^verbatim>\<open>SolidityOutput\<close>, \<open>deployed_contractName\<close>
  is the \<^verbatim>\<open>contractName\<close> of a \<^verbatim>\<open>DeployedContract\<close>).  The declared types are the data
  model: a value has the fields its interface declares.
\<close>

record ContractABIInput =
  name :: string
  type :: string
  internalType :: string

record ContractABI =
  inputs :: "ContractABIInput list"
  stateMutability :: string
  abi_type :: string

record ContractBuild =
  abi :: "ContractABI list"
  bytecode :: string
  contractName :: string

record SolidityOutput =
  out_abi :: "ContractABI list"
  evm_bytecode_object :: string

record RPCConfig =
  url :: string
  chainId :: number
  privateKey :: string

text \<open>
  \<^verbatim>\<open>Record<string, string>\<close>: the own properties of the object, in property order.  The
  object is a plain one (it starts as \<^verbatim>\<open>{}\<close> and is copied by spreading), so reading a
  name it does not have looks the name up in \<^verbatim>\<open>Object.prototype\<close>.
\<close>

type_synonym FormValues = "(string \<times> string) list"

definition Object_prototype :: "string list" where
  "Object_prototype =
     [''constructor'', ''__defineGetter__'', ''__defineSetter__'', ''hasOwnProperty'',
      ''__lookupGetter__'', ''__lookupSetter__'', ''isPrototypeOf'', ''propertyIsEnumerable'',
      ''toString'', ''valueOf'', ''__proto__'', ''toLocaleString'']"

definition get_value :: "FormValues \<Rightarrow> string \<Rightarrow> property_read" where
  "get_value vs key =
     (case map_of vs key of
        Some s \<Rightarrow> String_value s
      | None \<Rightarrow> if key \<in> set Object_prototype then Prototype_member key else Undefined_value)"

record DeployedContract =
  address :: string
  deployed_contractName :: string
  network :: string
  deployedAt :: string
  constructorArgs :: FormValues

section \<open>The connection settings editor (\<^verbatim>\<open>RPCSettings\<close>)\<close>

text \<open>
  Each of the three inputs calls \<^verbatim>\<open>onChange\<close> with a copy of the configuration in which
  its own field is replaced; the argument of an edit is \<^verbatim>\<open>e.target.value\<close>.
\<close>

datatype field_edit = Edit_url string | Edit_chainId string | Edit_privateKey string

fun RPCSettings_onChange :: "RPCConfig \<Rightarrow> field_edit \<Rightarrow> RPCConfig" where
  "RPCSettings_onChange config (Edit_url v) = config\<lparr>url := v\<rparr>"
| "RPCSettings_onChange config (Edit_chainId v) = config\<lparr>chainId := parseInt v\<rparr>"
| "RPCSettings_onChange config (Edit_privateKey v) = config\<lparr>privateKey := v\<rparr>"

text \<open>
  The owner stores what \<^verbatim>\<open>onChange\<close> emits (\<^verbatim>\<open>onChange={setRPCConfig}\<close>) and passes it
  back as \<^verbatim>\<open>config\<close>, so the configurations emitted along a sequence of edits are:
\<close>

fun emitted :: "RPCConfig \<Rightarrow> field_edit list \<Rightarrow> RPCConfig list" where
  "emitted config [] = []"
| "emitted config (e # es) =
     RPCSettings_onChange config e # emitted (RPCSettings_onChange config e) es"

text \<open>The fields an edit does not touch.\<close>

fun untouched :: "field_edit \<Rightarrow> RPCConfig \<Rightarrow> RPCConfig \<Rightarrow> bool" where
  "untouched (Edit_url _) prior next =
     (chainId next = chainId prior \<and> privateKey next = privateKey prior)"
| "untouched (Edit_chainId _) prior next =
     (url next = url prior \<and> privateKey next = privateKey prior)"
| "untouched (Edit_privateKey _) prior next =
     (url next = url prior \<and> chainId next = chainId prior)"

section \<open>The state of the panel and its effects\<close>

datatype toast = Toast_success string | Toast_error string

text \<open>
  An argument of \<^verbatim>\<open>factory.deploy\<close>: a string, a \<^verbatim>\<open>bigint\<close>, a boolean, or what a
  form value that is not a string was read as.
\<close>

datatype arg =
    Arg_string string
  | Arg_bigint int
  | Arg_bool bool
  | Arg_undefined
  | Arg_prototype_member string

text \<open>The calls made to the ethers library, in the order they are made.\<close>

datatype ethers_call =
    New_JsonRpcProvider string
  | New_Wallet string
  | New_ContractFactory
  | Call_deploy "arg list"
  | Call_waitForDeployment
  | Call_getAddress
  | Call_getNetwork

text \<open>
  The four state variables of \<^verbatim>\<open>DeploymentsView\<close>, and what the component does to the
  world outside: the notifications it raises and the library calls it makes.
  \<^verbatim>\<open>contracts\<close> is an object used as a dictionary; its keys are file names ending in
  \<^verbatim>\<open>.json\<close>, so \<^verbatim>\<open>Object.keys\<close> lists them in the order they were first assigned.
\<close>

record DeploymentsView =
  contracts :: "(string \<times> ContractBuild) list"
  selectedContract :: "string option"
  rpcConfig :: RPCConfig
  deployedContracts :: "DeployedContract list"
  toasts :: "toast list"
  ethers_calls :: "ethers_call list"

definition toast_success :: "string \<Rightarrow> DeploymentsView \<Rightarrow> DeploymentsView" where
  "toast_success m st = st\<lparr>toasts := toasts st @ [Toast_success m]\<rparr>"

definition toast_error :: "string \<Rightarrow> DeploymentsView \<Rightarrow> DeploymentsView" where
  "toast_error m st = st\<lparr>toasts := toasts st @ [Toast_error m]\<rparr>"

section \<open>Hydration from and persistence to local storage\<close>

text \<open>
  A configuration and a history as JavaScript values, which is what
  \<^verbatim>\<open>JSON.stringify\<close> is given and what the state holds after \<^verbatim>\<open>JSON.parse\<close>.
\<close>

definition js_of_RPCConfig :: "RPCConfig \<Rightarrow> jsval" where
  "js_of_RPCConfig c =
     Object [(''url'', Str (url c)), (''chainId'', Number (chainId c)),
             (''privateKey'', Str (privateKey c))]"

definition js_of_FormValues :: "FormValues \<Rightarrow> jsval" where
  "js_of_FormValues vs = Object (map (\<lambda>(k, v). (k, Str v)) vs)"

definition js_of_DeployedContract :: "DeployedContract \<Rightarrow> jsval" where
  "js_of_DeployedContract d =
     Object [(''address'', Str (address d)),
             (''contractName'', Str (deployed_contractName d)),
             (''network'', Str (network d)),
             (''deployedAt'', Str (deployedAt d)),
             (''constructorArgs'', js_of_FormValues (constructorArgs d))]"

definition js_of_DeployedContracts :: "DeployedContract list \<Rightarrow> jsval" where
  "js_of_DeployedContracts ds = Array (map js_of_DeployedContract ds)"

definition default_rpcConfig :: RPCConfig where
  "default_rpcConfig = \<lparr> url = [], chainId = Num 1, privateKey = [] \<rparr>"

text \<open>
  The initialisers of the two \<^verbatim>\<open>useState\<close> calls:
  \<^verbatim>\<open>saved ? JSON.parse(saved) : <default>\<close>.  They run while the component is first
  rendered; nothing catches what \<^verbatim>\<open>JSON.parse\<close> throws.
\<close>

definition initial_rpcConfig :: "localStorage \<Rightarrow> thrown + jsval" where
  "initial_rpcConfig storage =
     (case getItem storage ''rpcConfig'' of
        None \<Rightarrow> Inr (js_of_RPCConfig default_rpcConfig)
      | Some saved \<Rightarrow>
          if truthy saved then JSON_parse saved else Inr (js_of_RPCConfig default_rpcConfig))"

definition initial_deployedContracts :: "localStorage \<Rightarrow> thrown + jsval" where
  "initial_deployedContracts storage =
     (case getItem storage ''deployedContracts'' of
        None \<Rightarrow> Inr (Array [])
      | Some saved \<Rightarrow> if truthy saved then JSON_parse saved else Inr (Array []))"

text \<open>The two effects that write the state back whenever it changes.\<close>

definition save_rpcConfig :: "RPCConfig \<Rightarrow> localStorage \<Rightarrow> localStorage" where
  "save_rpcConfig c storage = setItem storage ''rpcConfig'' (JSON_stringify (js_of_RPCConfig c))"

definition save_deployedContracts :: "DeployedContract list \<Rightarrow> localStorage \<Rightarrow> localStorage" where
  "save_deployedContracts ds storage =
     setItem storage ''deployedContracts'' (JSON_stringify (js_of_DeployedContracts ds))"

section \<open>Loading the build artifacts (\<^verbatim>\<open>loadContracts\<close>)\<close>

text \<open>
  The file system of the WebContainer: listing a directory and reading a file can fail,
  and so can waiting for the container itself (\<^verbatim>\<open>await webcontainer\<close>).  What a file
  holds is a string, modelled by what \<^verbatim>\<open>JSON.parse(content) as SolidityOutput\<close> makes of
  it.  The declared type is taken at its word: JSON text of another shape is not among the
  file contents considered here (where it lacks \<^verbatim>\<open>evm.bytecode\<close>, reading
  \<^verbatim>\<open>contractData.evm.bytecode.object\<close> throws inside the same \<^verbatim>\<open>try\<close> block as
  \<^verbatim>\<open>JSON.parse\<close> does).
\<close>

record WebContainer =
  readdir :: "string \<Rightarrow> thrown + string list"
  readFile :: "string \<Rightarrow> thrown + SolidityOutput json_text"

text \<open>The body of the \<^verbatim>\<open>for\<close> loop, which fills \<^verbatim>\<open>loadedContracts\<close> file by file.\<close>

fun load_files ::
  "WebContainer \<Rightarrow> string list \<Rightarrow> (string \<times> ContractBuild) list
    \<Rightarrow> thrown + (string \<times> ContractBuild) list" where
  "load_files wc [] loadedContracts = Inr loadedContracts"
| "load_files wc (file # files) loadedContracts =
     (case readFile wc (''/build/'' @ file) of
        Inl e \<Rightarrow> Inl e
      | Inr content \<Rightarrow>
          (case JSON_parse content of
             Inl e \<Rightarrow> Inl e
           | Inr contractData \<Rightarrow>
               load_files wc files
                 (AList.update file
                    \<lparr> abi = out_abi contractData,
                      bytecode = evm_bytecode_object contractData,
                      contractName = replace file ''.json'' [] \<rparr>
                    loadedContracts)))"

text \<open>The \<^verbatim>\<open>try\<close> block up to the two state updates.\<close>

definition load_build ::
  "thrown + WebContainer \<Rightarrow> thrown + (string \<times> ContractBuild) list" where
  "load_build webcontainer =
     (case webcontainer of
        Inl e \<Rightarrow> Inl e
      | Inr wc \<Rightarrow>
          (case readdir wc ''/build'' of
             Inl e \<Rightarrow> Inl e
           | Inr buildDir \<Rightarrow>
               load_files wc (filter (\<lambda>file. endsWith file ''.json'') buildDir) []))"

definition loadContracts :: "thrown + WebContainer \<Rightarrow> DeploymentsView \<Rightarrow> DeploymentsView" where
  "loadContracts webcontainer st =
     (case load_build webcontainer of
        Inr loadedContracts \<Rightarrow>
          st\<lparr> contracts := loadedContracts,
              selectedContract :=
                (if length (map fst loadedContracts) > 0
                 then Some (hd (map fst loadedContracts))
                 else selectedContract st) \<rparr>
      | Inl error \<Rightarrow> toast_error ''Failed to load contract build files'' st)"

section \<open>Deploying (\<^verbatim>\<open>handleDeploy\<close>)\<close>

subsection \<open>The ethers library\<close>

text \<open>
  The library is outside the repository: each of its operations used here is a parameter
  that returns a value or throws.  \<open>'p\<close>, \<open>'w\<close>, \<open>'f\<close> and \<open>'i\<close> are its providers,
  wallets, contract factories and contract instances.
\<close>

record Network =
  network_name :: string
  network_chainId :: int

record ('p, 'w, 'f, 'i) ethers =
  JsonRpcProvider :: "string \<Rightarrow> thrown + 'p"
  Wallet :: "string \<Rightarrow> 'p \<Rightarrow> thrown + 'w"
  ContractFactory :: "ContractABI list \<Rightarrow> string \<Rightarrow> 'w \<Rightarrow> thrown + 'f"
  deploy :: "'f \<Rightarrow> arg list \<Rightarrow> thrown + 'i"
  waitForDeployment :: "'i \<Rightarrow> thrown + unit"
  getAddress :: "'i \<Rightarrow> thrown + string"
  getNetwork :: "'p \<Rightarrow> thrown + Network"

text \<open>
  A step of the \<^verbatim>\<open>try\<close> block takes the calls made so far and returns its result, or what
  it threw, with the calls made by then.  A step that throws ends the block.
\<close>

type_synonym 'a attempt = "ethers_call list \<Rightarrow> (thrown + 'a) \<times> ethers_call list"

definition library_call :: "ethers_call \<Rightarrow> thrown + 'a \<Rightarrow> 'a attempt" where
  "library_call c r calls = (r, calls @ [c])"

definition local_step :: "thrown + 'a \<Rightarrow> 'a attempt" where
  "local_step r calls = (r, calls)"

definition and_then :: "'a attempt \<Rightarrow> ('a \<Rightarrow> 'b attempt) \<Rightarrow> 'b attempt" where
  "and_then m f calls =
     (case m calls of
        (Inl e, calls') \<Rightarrow> (Inl e, calls')
      | (Inr x, calls') \<Rightarrow> f x calls')"

subsection \<open>Coercing the constructor arguments\<close>

text \<open>\<^verbatim>\<open>xs.map(f)\<close> where \<open>f\<close> may throw: the first exception ends the map.\<close>

fun map_throwing :: "('a \<Rightarrow> thrown + 'b) \<Rightarrow> 'a list \<Rightarrow> thrown + 'b list" where
  "map_throwing f [] = Inr []"
| "map_throwing f (x # xs) =
     (case f x of
        Inl e \<Rightarrow> Inl e
      | Inr y \<Rightarrow> (case map_throwing f xs of Inl e \<Rightarrow> Inl e | Inr ys \<Rightarrow> Inr (y # ys)))"

text \<open>A value passed on as it was read from the form values.\<close>

fun as_read :: "property_read \<Rightarrow> arg" where
  "as_read (String_value s) = Arg_string s"
| "as_read (Prototype_member key) = Arg_prototype_member key"
| "as_read Undefined_value = Arg_undefined"

text \<open>The callback of \<^verbatim>\<open>constructor.inputs.map\<close>: the \<^verbatim>\<open>switch\<close> on \<^verbatim>\<open>input.type\<close>.\<close>

definition coerce :: "FormValues \<Rightarrow> ContractABIInput \<Rightarrow> thrown + arg" where
  "coerce vs input =
     (let v = get_value vs (name input) in
      if type input = ''uint256'' then
        (case BigInt v of Inl e \<Rightarrow> Inl e | Inr n \<Rightarrow> Inr (Arg_bigint n))
      else if type input = ''address'' then Inr (as_read v)
      else if type input = ''bool'' then Inr (Arg_bool (v = String_value ''true''))
      else if type input = ''string'' then Inr (as_read v)
      else Inr (as_read v))"

definition constructorArgs_of :: "ContractABI \<Rightarrow> FormValues \<Rightarrow> thrown + arg list" where
  "constructorArgs_of constructor vs = map_throwing (coerce vs) (inputs constructor)"

subsection \<open>Classifying a failure\<close>

text \<open>The message the \<^verbatim>\<open>catch\<close> block of \<^verbatim>\<open>handleDeploy\<close> shows.\<close>

definition errorMessage :: "thrown \<Rightarrow> string" where
  "errorMessage error =
     (if instanceof_Error error then
        (if includes_str (message error) ''insufficient funds'' then
           ''Insufficient funds for deployment''
         else if includes_str (message error) ''nonce'' then
           ''Transaction nonce error. Please try again''
         else if includes_str (message error) ''gas'' then
           ''Gas estimation failed. Check constructor arguments''
         else message error)
      else ''Failed to deploy contract'')"

subsection \<open>The deploy routine\<close>

text \<open>
  The \<^verbatim>\<open>try\<close> block up to the state update: provider, wallet and factory are made first,
  then the arguments are coerced, then the contract is deployed and its address and
  network are read back.
\<close>

definition try_deploy ::
  "('p, 'w, 'f, 'i) ethers \<Rightarrow> RPCConfig \<Rightarrow> ContractBuild \<Rightarrow> ContractABI \<Rightarrow> FormValues
    \<Rightarrow> (string \<times> Network) attempt" where
  "try_deploy lib config contract constructor vs =
     and_then (library_call (New_JsonRpcProvider (url config)) (JsonRpcProvider lib (url config)))
       (\<lambda>provider.
     and_then (library_call (New_Wallet (privateKey config))
                 (Wallet lib (privateKey config) provider))
       (\<lambda>wallet.
     and_then (library_call New_ContractFactory
                 (ContractFactory lib (abi contract) (bytecode contract) wallet))
       (\<lambda>factory.
     and_then (local_step (constructorArgs_of constructor vs))
       (\<lambda>constructorArgs.
     and_then (library_call (Call_deploy constructorArgs) (deploy lib factory constructorArgs))
       (\<lambda>contractInstance.
     and_then (library_call Call_waitForDeployment (waitForDeployment lib contractInstance))
       (\<lambda>_.
     and_then (library_call Call_getAddress (getAddress lib contractInstance))
       (\<lambda>address.
     and_then (library_call Call_getNetwork (getNetwork lib provider))
       (\<lambda>network. local_step (Inr (address, network))))))))))"

text \<open>
  \<^verbatim>\<open>handleDeploy\<close>, with the time \<^verbatim>\<open>new Date().toISOString()\<close> returns as the parameter
  \<open>now\<close>.  It returns the state after the call and how its promise settled.
  \<^verbatim>\<open>!selectedContract\<close> holds for \<^verbatim>\<open>null\<close> and for the empty string.
\<close>

definition handleDeploy ::
  "('p, 'w, 'f, 'i) ethers \<Rightarrow> string \<Rightarrow> FormValues \<Rightarrow> DeploymentsView
    \<Rightarrow> DeploymentsView \<times> outcome" where
  "handleDeploy lib now vs st =
     (case selectedContract st of
        None \<Rightarrow> (st, Resolved)
      | Some sel \<Rightarrow>
          if falsy sel then (st, Resolved)
          else
            (case map_of (contracts st) sel of
               None \<Rightarrow>
                 (st, Rejected (TypeError ''Cannot read properties of undefined (reading abi)''))
             | Some contract \<Rightarrow>
                 (case find (\<lambda>item. abi_type item = ''constructor'') (abi contract) of
                    None \<Rightarrow> (st, Rejected (Error ''No constructor found in contract ABI''))
                  | Some constructor \<Rightarrow>
                      (case try_deploy lib (rpcConfig st) contract constructor vs
                              (ethers_calls st) of
                         (Inr (addr, net), calls) \<Rightarrow>
                           (toast_success (''Contract deployed to: '' @ addr)
                              (st\<lparr> ethers_calls := calls,
                                  deployedContracts :=
                                    deployedContracts st @
                                      [\<lparr> address = addr,
                                         deployed_contractName = contractName contract,
                                         network =
                                           network_name net @ '' ('' @
                                             decimal (network_chainId net) @ '')'',
                                         deployedAt = now,
                                         constructorArgs = vs \<rparr>] \<rparr>),
                            Resolved)
                       | (Inl error, calls) \<Rightarrow>
                           (toast_error (errorMessage error) (st\<lparr>ethers_calls := calls\<rparr>),
                            Rejected error)))))"

section \<open>The constructor argument form (\<^verbatim>\<open>DeploymentForm\<close>)\<close>

record DeploymentForm =
  form_values :: FormValues
  isDeploying :: bool

text \<open>A form starts with no values and nothing in flight.\<close>

definition mounted :: DeploymentForm where
  "mounted = \<lparr> form_values = [], isDeploying = False \<rparr>"

text \<open>Typing into the field of a parameter: \<^verbatim>\<open>{ ...prev, [input.name]: e.target.value }\<close>.\<close>

definition setValues :: "string \<Rightarrow> string \<Rightarrow> DeploymentForm \<Rightarrow> DeploymentForm" where
  "setValues key v form = form\<lparr>form_values := AList.update key v (form_values form)\<rparr>"

text \<open>The \<^verbatim>\<open>disabled\<close> attribute of the submit button.\<close>

definition disabled :: "DeploymentForm \<Rightarrow> RPCConfig \<Rightarrow> bool" where
  "disabled form config = (isDeploying form \<or> falsy (url config) \<or> falsy (privateKey config))"

text \<open>
  \<^verbatim>\<open>handleSubmit\<close> in its two halves: up to \<^verbatim>\<open>await onDeploy(values)\<close>, and from the
  moment that promise settles.
\<close>

definition handleSubmit_start :: "DeploymentForm \<Rightarrow> DeploymentForm" where
  "handleSubmit_start form = form\<lparr>isDeploying := True\<rparr>"

definition handleSubmit_finally :: "DeploymentForm \<Rightarrow> DeploymentForm" where
  "handleSubmit_finally form = form\<lparr>isDeploying := False\<rparr>"

definition handleSubmit_settled ::
  "outcome \<Rightarrow> DeploymentForm \<times> DeploymentsView \<Rightarrow> DeploymentForm \<times> DeploymentsView" where
  "handleSubmit_settled r fs =
     (case fs of (form, st) \<Rightarrow>
        (handleSubmit_finally form,
         (case r of
            Resolved \<Rightarrow> toast_success ''Contract deployed successfully!'' st
          | Rejected error \<Rightarrow> toast_error ''Failed to deploy contract'' st)))"

definition handleSubmit ::
  "(FormValues \<Rightarrow> DeploymentsView \<Rightarrow> DeploymentsView \<times> outcome)
    \<Rightarrow> DeploymentForm \<times> DeploymentsView \<Rightarrow> DeploymentForm \<times> DeploymentsView" where
  "handleSubmit onDeploy fs =
     (case fs of (form, st) \<Rightarrow>
        (case onDeploy (form_values form) st of
           (st', r) \<Rightarrow> handleSubmit_settled r (handleSubmit_start form, st')))"

text \<open>
  A form instance over time.  The browser sends no submit event from a disabled button,
  so a press on it changes nothing; otherwise \<^verbatim>\<open>handleSubmit\<close> starts and one more call
  of \<^verbatim>\<open>onDeploy\<close> is in flight, until it settles.  \<open>in_flight\<close> counts these calls; it is
  not a variable of the source.
\<close>

record form_instance =
  the_form :: DeploymentForm
  config_prop :: RPCConfig
  in_flight :: nat

datatype form_event =
    Submit_pressed
  | Deploy_settled
  | Field_typed string string
  | Config_passed RPCConfig

fun form_step :: "form_instance \<Rightarrow> form_event \<Rightarrow> form_instance" where
  "form_step fi Submit_pressed =
     (if disabled (the_form fi) (config_prop fi) then fi
      else fi\<lparr>the_form := handleSubmit_start (the_form fi), in_flight := in_flight fi + 1\<rparr>)"
| "form_step fi Deploy_settled =
     (if in_flight fi = 0 then fi
      else fi\<lparr>the_form := handleSubmit_finally (the_form fi), in_flight := in_flight fi - 1\<rparr>)"
| "form_step fi (Field_typed key v) = fi\<lparr>the_form := setValues key v (the_form fi)\<rparr>"
| "form_step fi (Config_passed config) = fi\<lparr>config_prop := config\<rparr>"

definition form_mounted :: "RPCConfig \<Rightarrow> form_instance" where
  "form_mounted config = \<lparr> the_form = mounted, config_prop = config, in_flight = 0 \<rparr>"

definition form_run :: "RPCConfig \<Rightarrow> form_event list \<Rightarrow> form_instance" where
  "form_run config events = foldl form_step (form_mounted config) events"

section \<open>Concrete inputs\<close>

text \<open>The inputs at which the theorems below are instantiated.\<close>

definition pills :: "js_any list SliderProps" where
  "pills =
     \<lparr> selected = Text ''code'',
       options = [\<lparr> option_value = Text ''code'', option_text = ''Code'' \<rparr>,
                  \<lparr> option_value = Text ''preview'', option_text = ''Preview'' \<rparr>,
                  \<lparr> option_value = Reference 7, option_text = ''Other'' \<rparr>],
       setSelected = Some (\<lambda>v s. v # s) \<rparr>"

definition local_node :: RPCConfig where
  "local_node = \<lparr> url = ''http://localhost:8545'', chainId = Num 31337, privateKey = ''0x01'' \<rparr>"

definition Token_constructor :: ContractABI where
  "Token_constructor =
     \<lparr> inputs = [\<lparr> name = ''owner'', type = ''address'', internalType = ''address'' \<rparr>,
                 \<lparr> name = ''amount'', type = ''uint256'', internalType = ''uint256'' \<rparr>,
                 \<lparr> name = ''active'', type = ''bool'', internalType = ''bool'' \<rparr>],
       stateMutability = ''nonpayable'',
       abi_type = ''constructor'' \<rparr>"

definition Token_values :: FormValues where
  "Token_values = [(''owner'', ''0xABC''), (''amount'', ''1000''), (''active'', ''true'')]"

definition Token_build :: ContractBuild where
  "Token_build = \<lparr> abi = [Token_constructor], bytecode = ''0x6080'', contractName = ''Token'' \<rparr>"

definition Library_build :: ContractBuild where
  "Library_build =
     \<lparr> abi = [\<lparr> inputs = [], stateMutability = ''view'', abi_type = ''function'' \<rparr>],
       bytecode = ''0x6080'', contractName = ''Library'' \<rparr>"

definition example_view :: "string option \<Rightarrow> DeploymentsView" where
  "example_view sel =
     \<lparr> contracts = [(''Token.json'', Token_build), (''Library.json'', Library_build)],
       selectedContract = sel,
       rpcConfig = local_node,
       deployedContracts = [],
       toasts = [],
       ethers_calls = [] \<rparr>"

definition test_network :: "(unit, unit, unit, unit) ethers" where
  "test_network =
     \<lparr> JsonRpcProvider = (\<lambda>_. Inr ()),
       Wallet = (\<lambda>_ _. Inr ()),
       ContractFactory = (\<lambda>_ _ _. Inr ()),
       deploy = (\<lambda>_ _. Inr ()),
       waitForDeployment = (\<lambda>_. Inr ()),
       getAddress = (\<lambda>_. Inr ''0x5FbDB2315678afecb367f032d93F642f64180aa3''),
       getNetwork = (\<lambda>_. Inr \<lparr> network_name = ''hardhat'', network_chainId = 31337 \<rparr>) \<rparr>"

definition empty_wallet_network :: "(unit, unit, unit, unit) ethers" where
  "empty_wallet_network =
     test_network
       \<lparr> deploy := (\<lambda>_ _. Inl (Error ''insufficient funds for gas * price + value (nonce 0)'')) \<rparr>"

definition Token_output :: SolidityOutput where
  "Token_output =
     \<lparr> out_abi = [\<lparr> inputs = [], stateMutability = ''nonpayable'', abi_type = ''constructor'' \<rparr>],
       evm_bytecode_object = ''0x6080'' \<rparr>"

definition build_container :: "SolidityOutput json_text \<Rightarrow> WebContainer" where
  "build_container vault =
     \<lparr> readdir = (\<lambda>dir. if dir = ''/build'' then Inr [''Token.json'', ''notes.txt'', ''Vault.json'']
                        else Inl (Error ''ENOENT'')),
       readFile = (\<lambda>path. if path = ''/build/Token.json'' then Inr (JSONText Token_output)
                          else if path = ''/build/Vault.json'' then Inr vault
                          else Inl (Error ''ENOENT'')) \<rparr>"

definition stale_view :: DeploymentsView where
  "stale_view =
     \<lparr> contracts = [(''Old.json'', \<lparr> abi = [], bytecode = ''0x00'', contractName = ''Old'' \<rparr>)],
       selectedContract = Some ''Old.json'',
       rpcConfig = local_node,
       deployedContracts = [],
       toasts = [],
       ethers_calls = [] \<rparr>"

definition first_deployment :: DeployedContract where
  "first_deployment =
     \<lparr> address = ''0x5FbDB2315678afecb367f032d93F642f64180aa3'',
       deployed_contractName = ''Token'',
       network = ''hardhat (31337)'',
       deployedAt = ''2024-05-01T12:00:00.000Z'',
       constructorArgs = [(''owner'', ''0xABC''), (''amount'', ''1000''), (''active'', ''true'')] \<rparr>"

definition saved_storage :: localStorage where
  "saved_storage = Map.empty(''rpcConfig'' \<mapsto> JSONText (js_of_RPCConfig local_node))"

definition corrupt_storage :: localStorage where
  "corrupt_storage =
     Map.empty(''rpcConfig'' \<mapsto> NotJSON ''{url:'', ''deployedContracts'' \<mapsto> NotJSON ''[{'')"

section \<open>Properties of the pill selector\<close>

text \<open>
  Claim C9.  For every option list and every selected value, the selector renders one
  button per option and highlights exactly the options whose value is strictly equal to
  the selected value (\<^const>\<open>strict_equals\<close>: the same primitive or the same reference,
  never a comparison of contents, so that two objects are equal exactly when their
  references are); clicking an option calls the selection callback, when there is one,
  with that option's value.  This holds for every option, hence for one whose value
  differs from the selected value.
\<close>

theorem Slider_highlights_strictly_equal_options:
  "length (Slider props) = length (options props) \<and>
   (\<forall>i < length (options props).
      highlighted (Slider props ! i) =
        strict_equals (selected props) (option_value (options props ! i))) \<and>
   (\<forall>i < length (options props). \<forall>callback.
      setSelected props = Some callback \<longrightarrow>
        onClick (Slider props ! i) = callback (option_value (options props ! i))) \<and>
   (\<forall>a b. strict_equals (Reference a) (Reference b) \<longleftrightarrow> a = b)"
  by (simp add: Slider_def highlighted_def onClick_def)

theorem Slider_highlights_strictly_equal_options_witness:
  "highlighted (Slider pills ! 0) \<and> \<not> highlighted (Slider pills ! 1) \<and>
   \<not> highlighted (Slider pills ! 2) \<and> onClick (Slider pills ! 1) [] = [Text ''preview'']"
proof -
  note T = Slider_highlights_strictly_equal_options [of pills]
  have len: "length (options pills) = 3" by (simp add: pills_def)
  from T len have H: "\<And>i. i < 3 \<Longrightarrow>
      highlighted (Slider pills ! i) =
        strict_equals (selected pills) (option_value (options pills ! i))"
    by simp
  from T len have K: "\<And>i. i < 3 \<Longrightarrow>
      onClick (Slider pills ! i) = (\<lambda>s. option_value (options pills ! i) # s)"
    by (simp add: pills_def)
  show ?thesis
    using H [of 0] H [of 1] H [of 2] K [of 1] by (simp add: pills_def)
qed

section \<open>Properties of the connection settings editor\<close>

lemma emitted_nth:
  "i < length edits \<Longrightarrow>
     emitted config edits ! i =
       RPCSettings_onChange ((config # emitted config edits) ! i) (edits ! i)"
proof (induction edits arbitrary: config i)
  case Nil
  then show ?case by simp
next
  case (Cons e es)
  show ?case
  proof (cases i)
    case 0
    then show ?thesis by simp
  next
    case (Suc j)
    with Cons.prems have "j < length es" by simp
    from Cons.IH [OF this, of "RPCSettings_onChange config e"] Suc show ?thesis by simp
  qed
qed

lemma onChange_untouched: "untouched e config (RPCSettings_onChange config e)"
  by (cases e) simp_all

text \<open>
  Claim C7.  Along every sequence of field edits from every starting configuration, the
  \<open>i\<close>-th emitted configuration is the prior one (the starting configuration, or the one
  emitted just before) with the edited field replaced: the two other fields are copied
  from the prior configuration, and the edited field holds the new text (for the chain
  identifier, what \<^const>\<open>parseInt\<close> makes of it).
\<close>

theorem RPCSettings_edit_copies_untouched_fields:
  "i < length edits \<Longrightarrow>
     (let prior = (config # emitted config edits) ! i; next = emitted config edits ! i in
      next = RPCSettings_onChange prior (edits ! i) \<and>
      untouched (edits ! i) prior next \<and>
      (case edits ! i of
         Edit_url v \<Rightarrow>
           next = \<lparr> url = v, chainId = chainId prior, privateKey = privateKey prior \<rparr>
       | Edit_chainId v \<Rightarrow>
           next = \<lparr> url = url prior, chainId = parseInt v, privateKey = privateKey prior \<rparr>
       | Edit_privateKey v \<Rightarrow>
           next = \<lparr> url = url prior, chainId = chainId prior, privateKey = v \<rparr>))"
  by (simp add: emitted_nth Let_def onChange_untouched split: field_edit.split)

theorem RPCSettings_edit_copies_untouched_fields_witness:
  "emitted local_node [Edit_url ''https://rpc.example'', Edit_chainId ''abc''] ! 1 =
     \<lparr> url = ''https://rpc.example'', chainId = NaN, privateKey = ''0x01'' \<rparr>"
  using RPCSettings_edit_copies_untouched_fields
    [of 1 "[Edit_url ''https://rpc.example'', Edit_chainId ''abc'']" local_node]
  by (simp add: local_node_def parseInt_def startsWith_def is_whitespace_def is_digit_def
      digit_of_def)

section \<open>Properties of the constructor argument form\<close>

lemma form_step_invariant:
  "in_flight fi = (if isDeploying (the_form fi) then 1 else 0) \<Longrightarrow>
   in_flight (form_step fi ev) = (if isDeploying (the_form (form_step fi ev)) then 1 else 0)"
  by (cases ev)
     (auto simp: disabled_def handleSubmit_start_def handleSubmit_finally_def setValues_def)

lemma foldl_form_step_invariant:
  "in_flight fi = (if isDeploying (the_form fi) then 1 else 0) \<Longrightarrow>
   in_flight (foldl form_step fi evs) =
     (if isDeploying (the_form (foldl form_step fi evs)) then 1 else 0)"
proof (induction evs arbitrary: fi)
  case Nil
  then show ?case by simp
next
  case (Cons ev evs)
  from form_step_invariant [OF Cons.prems, of ev] show ?case
    by (simp add: Cons.IH)
qed

lemma form_run_invariant:
  "in_flight (form_run config events) =
     (if isDeploying (the_form (form_run config events)) then 1 else 0)"
  unfolding form_run_def
  by (rule foldl_form_step_invariant) (simp add: form_mounted_def mounted_def)

text \<open>
  Claim C8.  The submit control is disabled exactly when a submission is in flight
  (\<open>isDeploying\<close>) or the endpoint URL or the private key of the current configuration
  is empty.  Consequently, whatever the user does with a form instance, at most one
  deploy is in flight, \<open>isDeploying\<close> holds exactly while one is, and pressing submit
  while one is in flight starts nothing.
\<close>

theorem DeploymentForm_submit_disabled_while_in_flight:
  "(disabled form config \<longleftrightarrow> isDeploying form \<or> url config = [] \<or> privateKey config = []) \<and>
   in_flight (form_run config0 events) \<le> 1 \<and>
   (isDeploying (the_form (form_run config0 events)) \<longleftrightarrow>
      in_flight (form_run config0 events) = 1) \<and>
   (in_flight (form_run config0 events) = 1 \<longrightarrow>
      form_step (form_run config0 events) Submit_pressed = form_run config0 events)"
proof -
  have inv: "in_flight (form_run config0 events) =
      (if isDeploying (the_form (form_run config0 events)) then 1 else 0)"
    by (rule form_run_invariant)
  have "disabled form config \<longleftrightarrow> isDeploying form \<or> url config = [] \<or> privateKey config = []"
    by (simp add: disabled_def falsy_def)
  moreover from inv have "in_flight (form_run config0 events) \<le> 1"
    by (simp split: if_splits)
  moreover from inv have
    "isDeploying (the_form (form_run config0 events)) \<longleftrightarrow>
       in_flight (form_run config0 events) = 1"
    by (simp split: if_splits)
  moreover from inv have "in_flight (form_run config0 events) = 1 \<longrightarrow>
      form_step (form_run config0 events) Submit_pressed = form_run config0 events"
    by (simp add: disabled_def split: if_splits)
  ultimately show ?thesis by blast
qed

theorem DeploymentForm_submit_disabled_while_in_flight_witness:
  "in_flight (form_run local_node [Submit_pressed]) = 1 \<and>
   form_run local_node [Submit_pressed, Submit_pressed] = form_run local_node [Submit_pressed] \<and>
   disabled (the_form (form_run local_node [Submit_pressed])) local_node"
proof -
  have one: "in_flight (form_run local_node [Submit_pressed]) = 1"
    by (simp add: form_run_def form_mounted_def mounted_def local_node_def disabled_def
        falsy_def handleSubmit_start_def)
  have step: "form_run local_node [Submit_pressed, Submit_pressed] =
      form_step (form_run local_node [Submit_pressed]) Submit_pressed"
    by (simp add: form_run_def)
  from DeploymentForm_submit_disabled_while_in_flight
    [of "the_form (form_run local_node [Submit_pressed])" local_node local_node
      "[Submit_pressed]"] one step
  show ?thesis by simp
qed

section \<open>Properties of the artifact load\<close>

lemma load_files_ok:
  "\<forall>file \<in> set files. readFile wc (''/build/'' @ file) = Inr (JSONText (contractData file)) \<Longrightarrow>
   load_files wc files loaded =
     Inr (fold (\<lambda>file. AList.update file
                  \<lparr> abi = out_abi (contractData file),
                    bytecode = evm_bytecode_object (contractData file),
                    contractName = replace file ''.json'' [] \<rparr>) files loaded)"
  by (induction files arbitrary: loaded) simp_all

lemma load_files_fails:
  "file \<in> set files \<Longrightarrow>
   (\<exists>e. readFile wc (''/build/'' @ file) = Inl e) \<or>
   (\<exists>s. readFile wc (''/build/'' @ file) = Inr (NotJSON s)) \<Longrightarrow>
   \<exists>e. load_files wc files loaded = Inl e"
proof (induction files arbitrary: loaded)
  case Nil
  then show ?case by simp
next
  case (Cons f fs)
  show ?case
  proof (cases "readFile wc (''/build/'' @ f)")
    case (Inl e)
    then show ?thesis by simp
  next
    case (Inr content)
    show ?thesis
    proof (cases content)
      case (NotJSON s)
      with Inr show ?thesis by simp
    next
      case (JSONText d)
      with Inr Cons.prems have "file \<in> set fs" by auto
      from Cons.IH [OF this Cons.prems(2)] Inr JSONText show ?thesis by simp
    qed
  qed
qed

lemma fold_update_keys:
  "fst ` set (fold (\<lambda>k. AList.update k (g k)) ks al) = set ks \<union> fst ` set al"
  by (induction ks arbitrary: al) (auto simp: dom_update)

lemma fold_update_distinct:
  "distinct (map fst al) \<Longrightarrow> distinct (map fst (fold (\<lambda>k. AList.update k (g k)) ks al))"
  by (induction ks arbitrary: al) (simp_all add: distinct_update)

lemma update_hd: "al \<noteq> [] \<Longrightarrow> fst (hd (AList.update k v al)) = fst (hd al)"
  by (cases al) auto

lemma update_nonempty: "AList.update k v al \<noteq> []"
  by (cases al) auto

lemma fold_update_hd_nonempty:
  "al \<noteq> [] \<Longrightarrow> fold (\<lambda>k. AList.update k (g k)) ks al \<noteq> [] \<and>
     fst (hd (fold (\<lambda>k. AList.update k (g k)) ks al)) = fst (hd al)"
  by (induction ks arbitrary: al) (simp_all add: update_hd update_nonempty)

lemma fold_update_hd:
  "ks \<noteq> [] \<Longrightarrow> fold (\<lambda>k. AList.update k (g k)) ks [] \<noteq> [] \<and>
     fst (hd (fold (\<lambda>k. AList.update k (g k)) ks [])) = hd ks"
proof (cases ks)
  case Nil
  then show "ks \<noteq> [] \<Longrightarrow> ?thesis" by simp
next
  case (Cons k ks')
  from fold_update_hd_nonempty [of "[(k, g k)]" g ks'] Cons
  show ?thesis by simp
qed

lemma fold_update_map_of:
  "map_of (fold (\<lambda>k. AList.update k (g k)) ks al) k =
     (if k \<in> set ks then Some (g k) else map_of al k)"
  by (induction ks arbitrary: al) (auto simp: update_conv')

text \<open>
  Claim C3.  A load (the one at mount and every refresh run the same \<^const>\<open>loadContracts\<close>)
  that fails at any step leaves the state as it was but for one failure notification:
  when the container is not available, when listing \<^verbatim>\<open>/build\<close> fails, and when some
  \<^verbatim>\<open>.json\<close> file of the listing cannot be read or is not JSON text.  When every step
  succeeds, the new \<^verbatim>\<open>contracts\<close> has exactly the listed \<^verbatim>\<open>.json\<close> files as keys, each
  bound to what its file holds (nothing of the prior mapping remains); if there is such a
  file, the first key, which is the first \<^verbatim>\<open>.json\<close> file of the listing, becomes the
  selected contract; nothing else of the state changes and no notification is raised.
\<close>

theorem loadContracts_all_or_nothing:
  "(webcontainer = Inl e \<longrightarrow>
      loadContracts webcontainer st =
        st\<lparr>toasts := toasts st @ [Toast_error ''Failed to load contract build files'']\<rparr>) \<and>
   (webcontainer = Inr wc \<and> readdir wc ''/build'' = Inl e \<longrightarrow>
      loadContracts webcontainer st =
        st\<lparr>toasts := toasts st @ [Toast_error ''Failed to load contract build files'']\<rparr>) \<and>
   (webcontainer = Inr wc \<and> readdir wc ''/build'' = Inr buildDir \<and>
    bad \<in> set buildDir \<and> endsWith bad ''.json'' \<and>
    (readFile wc (''/build/'' @ bad) = Inl e \<or>
     readFile wc (''/build/'' @ bad) = Inr (NotJSON s)) \<longrightarrow>
      loadContracts webcontainer st =
        st\<lparr>toasts := toasts st @ [Toast_error ''Failed to load contract build files'']\<rparr>) \<and>
   (webcontainer = Inr wc \<and> readdir wc ''/build'' = Inr buildDir \<and>
    (\<forall>file \<in> set buildDir. endsWith file ''.json'' \<longrightarrow>
       readFile wc (''/build/'' @ file) = Inr (JSONText (contractData file))) \<longrightarrow>
      (let files = filter (\<lambda>file. endsWith file ''.json'') buildDir;
           st' = loadContracts webcontainer st in
       set (map fst (contracts st')) = set files \<and>
       distinct (map fst (contracts st')) \<and>
       (\<forall>file \<in> set files.
          map_of (contracts st') file =
            Some \<lparr> abi = out_abi (contractData file),
                   bytecode = evm_bytecode_object (contractData file),
                   contractName = replace file ''.json'' [] \<rparr>) \<and>
       (files \<noteq> [] \<longrightarrow>
          hd (map fst (contracts st')) = hd files \<and> selectedContract st' = Some (hd files)) \<and>
       (files = [] \<longrightarrow> selectedContract st' = selectedContract st) \<and>
       st' = st\<lparr>contracts := contracts st', selectedContract := selectedContract st'\<rparr>))"
proof (intro conjI impI)
  assume "webcontainer = Inl e"
  then show "loadContracts webcontainer st =
      st\<lparr>toasts := toasts st @ [Toast_error ''Failed to load contract build files'']\<rparr>"
    by (simp add: loadContracts_def load_build_def toast_error_def)
next
  assume "webcontainer = Inr wc \<and> readdir wc ''/build'' = Inl e"
  then show "loadContracts webcontainer st =
      st\<lparr>toasts := toasts st @ [Toast_error ''Failed to load contract build files'']\<rparr>"
    by (simp add: loadContracts_def load_build_def toast_error_def)
next
  assume a: "webcontainer = Inr wc \<and> readdir wc ''/build'' = Inr buildDir \<and>
    bad \<in> set buildDir \<and> endsWith bad ''.json'' \<and>
    (readFile wc (''/build/'' @ bad) = Inl e \<or>
     readFile wc (''/build/'' @ bad) = Inr (NotJSON s))"
  then have "bad \<in> set (filter (\<lambda>file. endsWith file ''.json'') buildDir)" by simp
  moreover from a have "(\<exists>e. readFile wc (''/build/'' @ bad) = Inl e) \<or>
      (\<exists>s. readFile wc (''/build/'' @ bad) = Inr (NotJSON s))" by blast
  ultimately obtain e' where
    "load_files wc (filter (\<lambda>file. endsWith file ''.json'') buildDir) [] = Inl e'"
    using load_files_fails by blast
  with a show "loadContracts webcontainer st =
      st\<lparr>toasts := toasts st @ [Toast_error ''Failed to load contract build files'']\<rparr>"
    by (simp add: loadContracts_def load_build_def toast_error_def)
next
  let ?files = "filter (\<lambda>file. endsWith file ''.json'') buildDir"
  let ?g = "\<lambda>file. \<lparr> abi = out_abi (contractData file),
                      bytecode = evm_bytecode_object (contractData file),
                      contractName = replace file ''.json'' [] \<rparr>"
  let ?loaded = "fold (\<lambda>file. AList.update file (?g file)) ?files []"
  assume a: "webcontainer = Inr wc \<and> readdir wc ''/build'' = Inr buildDir \<and>
    (\<forall>file \<in> set buildDir. endsWith file ''.json'' \<longrightarrow>
       readFile wc (''/build/'' @ file) = Inr (JSONText (contractData file)))"
  then have "\<forall>file \<in> set ?files.
      readFile wc (''/build/'' @ file) = Inr (JSONText (contractData file))" by simp
  from load_files_ok [OF this, of "[]"] a
  have build: "load_build webcontainer = Inr ?loaded"
    by (simp add: load_build_def)
  have keys: "set (map fst ?loaded) = set ?files"
    using fold_update_keys [of ?g ?files "[]"] by simp
  have dist: "distinct (map fst ?loaded)"
    by (rule fold_update_distinct) simp
  have vals: "\<forall>file \<in> set ?files. map_of ?loaded file = Some (?g file)"
    by (simp add: fold_update_map_of)
  have first: "?files \<noteq> [] \<Longrightarrow> ?loaded \<noteq> [] \<and> hd (map fst ?loaded) = hd ?files"
    using fold_update_hd [of ?files ?g] by (simp add: hd_map)
  have st': "loadContracts webcontainer st =
      st\<lparr>contracts := ?loaded,
          selectedContract := (if ?files = [] then selectedContract st else Some (hd ?files))\<rparr>"
  proof (cases "?files = []")
    case True
    with build show ?thesis by (simp add: loadContracts_def)
  next
    case False
    from first [OF False] build False show ?thesis by (simp add: loadContracts_def)
  qed
  show "let files = ?files; st' = loadContracts webcontainer st in
       set (map fst (contracts st')) = set files \<and>
       distinct (map fst (contracts st')) \<and>
       (\<forall>file \<in> set files.
          map_of (contracts st') file =
            Some \<lparr> abi = out_abi (contractData file),
                   bytecode = evm_bytecode_object (contractData file),
                   contractName = replace file ''.json'' [] \<rparr>) \<and>
       (files \<noteq> [] \<longrightarrow>
          hd (map fst (contracts st')) = hd files \<and> selectedContract st' = Some (hd files)) \<and>
       (files = [] \<longrightarrow> selectedContract st' = selectedContract st) \<and>
       st' = st\<lparr>contracts := contracts st', selectedContract := selectedContract st'\<rparr>"
    unfolding Let_def st'
    using keys dist vals first by simp
qed

lemma build_files:
  "filter (\<lambda>file. endsWith file ''.json'') [''Token.json'', ''notes.txt'', ''Vault.json''] =
     [''Token.json'', ''Vault.json'']"
  by (simp add: endsWith_def)

theorem loadContracts_all_or_nothing_witness:
  "selectedContract (loadContracts (Inr (build_container (JSONText Token_output))) stale_view) =
     Some ''Token.json'' \<and>
   set (map fst (contracts (loadContracts (Inr (build_container (JSONText Token_output))) stale_view))) =
     {''Token.json'', ''Vault.json''} \<and>
   loadContracts (Inr (build_container (NotJSON ''{''))) stale_view =
     stale_view\<lparr>toasts := [Toast_error ''Failed to load contract build files'']\<rparr>"
proof -
  have ok: "\<forall>file \<in> set [''Token.json'', ''notes.txt'', ''Vault.json'']. endsWith file ''.json'' \<longrightarrow>
       readFile (build_container (JSONText Token_output)) (''/build/'' @ file) =
         Inr (JSONText ((\<lambda>_. Token_output) file))"
    by (simp add: build_container_def endsWith_def)
  have dir: "\<And>vault. readdir (build_container vault) ''/build'' =
      Inr [''Token.json'', ''notes.txt'', ''Vault.json'']"
    by (simp add: build_container_def)
  have bad: "readFile (build_container (NotJSON ''{'')) (''/build/'' @ ''Vault.json'') =
      Inr (NotJSON ''{'')"
    by (simp add: build_container_def)
  have json: "endsWith ''Vault.json'' ''.json''" by (simp add: endsWith_def)
  note good = loadContracts_all_or_nothing [where webcontainer = "Inr (build_container (JSONText Token_output))"
      and wc = "build_container (JSONText Token_output)" and st = stale_view
      and buildDir = "[''Token.json'', ''notes.txt'', ''Vault.json'']"
      and contractData = "\<lambda>_. Token_output"]
  note failing = loadContracts_all_or_nothing [where webcontainer = "Inr (build_container (NotJSON ''{''))"
      and wc = "build_container (NotJSON ''{'')" and st = stale_view
      and buildDir = "[''Token.json'', ''notes.txt'', ''Vault.json'']"
      and bad = "''Vault.json''" and s = "''{''"]
  have "Inr (build_container (JSONText Token_output)) = Inr (build_container (JSONText Token_output)) \<and>
      readdir (build_container (JSONText Token_output)) ''/build'' =
        Inr [''Token.json'', ''notes.txt'', ''Vault.json''] \<and>
      (\<forall>file \<in> set [''Token.json'', ''notes.txt'', ''Vault.json'']. endsWith file ''.json'' \<longrightarrow>
         readFile (build_container (JSONText Token_output)) (''/build/'' @ file) =
           Inr (JSONText ((\<lambda>_. Token_output) file)))"
    by (intro conjI refl dir ok)
  from mp [OF good [THEN conjunct2, THEN conjunct2, THEN conjunct2] this] have
    "selectedContract (loadContracts (Inr (build_container (JSONText Token_output))) stale_view) =
       Some ''Token.json''"
    "set (map fst (contracts (loadContracts (Inr (build_container (JSONText Token_output))) stale_view))) =
       {''Token.json'', ''Vault.json''}"
    unfolding Let_def build_files by simp_all
  moreover from failing dir bad json have
    "loadContracts (Inr (build_container (NotJSON ''{''))) stale_view =
       stale_view\<lparr>toasts := [Toast_error ''Failed to load contract build files'']\<rparr>"
    by (simp add: stale_view_def)
  ultimately show ?thesis by simp
qed

section \<open>Properties of the deploy routine\<close>

lemma try_deploy_calls_deploy:
  "JsonRpcProvider lib (url config) = Inr provider \<Longrightarrow>
   Wallet lib (privateKey config) provider = Inr wallet \<Longrightarrow>
   ContractFactory lib (abi contract) (bytecode contract) wallet = Inr factory \<Longrightarrow>
   constructorArgs_of constructor vs = Inr args \<Longrightarrow>
   \<exists>r rest. try_deploy lib config contract constructor vs calls =
     (r, calls @ [New_JsonRpcProvider (url config), New_Wallet (privateKey config),
                  New_ContractFactory, Call_deploy args] @ rest)"
  by (auto simp: try_deploy_def and_then_def library_call_def local_step_def
      split: sum.splits prod.splits)

lemma includes_str_iff:
  "includes_str s needle \<longleftrightarrow> (\<exists>pre post. s = pre @ needle @ post)"
proof (induction s)
  case Nil
  then show ?case by simp
next
  case (Cons c cs)
  have "startsWith (c # cs) needle \<longleftrightarrow> (\<exists>post. c # cs = needle @ post)"
    unfolding startsWith_def
    by (metis append_eq_conv_conj append_take_drop_id)
  moreover have "(\<exists>pre post. c # cs = pre @ needle @ post) \<longleftrightarrow>
      (\<exists>post. c # cs = needle @ post) \<or> (\<exists>pre post. cs = pre @ needle @ post)"
  proof
    assume "\<exists>pre post. c # cs = pre @ needle @ post"
    then obtain pre post where eq: "c # cs = pre @ needle @ post" by blast
    show "(\<exists>post. c # cs = needle @ post) \<or> (\<exists>pre post. cs = pre @ needle @ post)"
    proof (cases pre)
      case Nil
      with eq show ?thesis by auto
    next
      case (Cons p ps)
      with eq have "cs = ps @ needle @ post" by simp
      then show ?thesis by blast
    qed
  next
    assume "(\<exists>post. c # cs = needle @ post) \<or> (\<exists>pre post. cs = pre @ needle @ post)"
    then show "\<exists>pre post. c # cs = pre @ needle @ post"
    proof
      assume "\<exists>post. c # cs = needle @ post"
      then obtain post where "c # cs = [] @ needle @ post" by auto
      then show ?thesis by blast
    next
      assume "\<exists>pre post. cs = pre @ needle @ post"
      then obtain pre post where "c # cs = (c # pre) @ needle @ post" by auto
      then show ?thesis by blast
    qed
  qed
  ultimately show ?case using Cons.IH by simp
qed

lemma Token_StringToBigInt: "StringToBigInt ''1000'' = Some 1000"
  by (simp add: StringToBigInt_def trim_def is_whitespace_def startsWith_def all_digits_def
      is_digit_def digit_of_def digits_value_def)

lemma Token_constructorArgs:
  "constructorArgs_of Token_constructor Token_values =
     Inr [Arg_string ''0xABC'', Arg_bigint 1000, Arg_bool True]"
  by (simp add: constructorArgs_of_def Token_constructor_def Token_values_def coerce_def
      get_value_def BigInt_def Token_StringToBigInt)

lemma empty_wallet_try_deploy:
  "try_deploy empty_wallet_network local_node Token_build Token_constructor Token_values [] =
     (Inl (Error ''insufficient funds for gas * price + value (nonce 0)''),
      [New_JsonRpcProvider ''http://localhost:8545'', New_Wallet ''0x01'', New_ContractFactory,
       Call_deploy [Arg_string ''0xABC'', Arg_bigint 1000, Arg_bool True]])"
  by (simp add: try_deploy_def and_then_def library_call_def local_step_def
      empty_wallet_network_def test_network_def Token_constructorArgs local_node_def)

text \<open>
  Claim C4.  When the selected artifact's ABI has no entry of type \<^verbatim>\<open>constructor\<close>,
  \<^const>\<open>handleDeploy\<close> rejects with the error \<^verbatim>\<open>No constructor found in contract ABI\<close>
  and leaves the state as it was, whatever the library would do: no call to the library
  (provider, wallet, factory) has been made, and the history has no new record.
\<close>

theorem handleDeploy_rejects_without_constructor:
  "selectedContract st = Some sel \<Longrightarrow> sel \<noteq> [] \<Longrightarrow> map_of (contracts st) sel = Some contract \<Longrightarrow>
   \<forall>item \<in> set (abi contract). abi_type item \<noteq> ''constructor'' \<Longrightarrow>
     handleDeploy lib now vs st = (st, Rejected (Error ''No constructor found in contract ABI'')) \<and>
     ethers_calls (fst (handleDeploy lib now vs st)) = ethers_calls st \<and>
     deployedContracts (fst (handleDeploy lib now vs st)) = deployedContracts st"
proof -
  assume a: "selectedContract st = Some sel" "sel \<noteq> []" "map_of (contracts st) sel = Some contract"
    and b: "\<forall>item \<in> set (abi contract). abi_type item \<noteq> ''constructor''"
  from b have "find (\<lambda>item. abi_type item = ''constructor'') (abi contract) = None"
    by (simp add: find_None_iff)
  with a show ?thesis by (simp add: handleDeploy_def falsy_def)
qed

theorem handleDeploy_rejects_without_constructor_witness:
  "handleDeploy test_network ''2024-05-01T12:00:00.000Z'' [] (example_view (Some ''Library.json'')) =
     (example_view (Some ''Library.json''), Rejected (Error ''No constructor found in contract ABI''))"
  using handleDeploy_rejects_without_constructor
    [of "example_view (Some ''Library.json'')" "''Library.json''" Library_build test_network
      "''2024-05-01T12:00:00.000Z''" "[]"]
  by (simp add: example_view_def Library_build_def)

text \<open>
  Claim C10.  With no contract selected (\<^verbatim>\<open>selectedContract\<close> is \<^verbatim>\<open>null\<close>, or the empty
  string, which \<^verbatim>\<open>!selectedContract\<close> treats alike), \<^const>\<open>handleDeploy\<close> changes nothing
  and its promise resolves; the form's \<^const>\<open>handleSubmit\<close>, run with it as \<^verbatim>\<open>onDeploy\<close>,
  therefore raises its success notification, although no record was appended to the
  history and no call was made to the library.
\<close>

theorem handleDeploy_without_selection_reports_success:
  "selectedContract st = None \<or> selectedContract st = Some [] \<Longrightarrow>
     handleDeploy lib now vs st = (st, Resolved) \<and>
     handleSubmit (handleDeploy lib now) (form, st) =
       (form\<lparr>isDeploying := False\<rparr>,
        st\<lparr>toasts := toasts st @ [Toast_success ''Contract deployed successfully!'']\<rparr>) \<and>
     deployedContracts (snd (handleSubmit (handleDeploy lib now) (form, st))) =
       deployedContracts st \<and>
     ethers_calls (snd (handleSubmit (handleDeploy lib now) (form, st))) = ethers_calls st"
  by (auto simp: handleDeploy_def falsy_def handleSubmit_def handleSubmit_settled_def
      handleSubmit_start_def handleSubmit_finally_def toast_success_def)

theorem handleDeploy_without_selection_reports_success_witness:
  "handleSubmit (handleDeploy test_network ''2024-05-01T12:00:00.000Z'')
      (mounted, example_view None) =
     (mounted, (example_view None)\<lparr>toasts := [Toast_success ''Contract deployed successfully!'']\<rparr>)"
  using handleDeploy_without_selection_reports_success [of "example_view None" test_network "''2024-05-01T12:00:00.000Z''" "[]" mounted]
  by (simp add: example_view_def mounted_def)

text \<open>
  Claim C2, as amended.  When a step of the \<^verbatim>\<open>try\<close> block throws, \<^const>\<open>handleDeploy\<close>
  raises exactly one failure notification and rejects with the value that was thrown.
  The notification's message is chosen by the first test that applies, in this order: a
  thrown value that is not an \<^verbatim>\<open>Error\<close> gives \<^verbatim>\<open>Failed to deploy contract\<close>; a message
  that contains \<^verbatim>\<open>insufficient funds\<close> anywhere gives \<^verbatim>\<open>Insufficient funds for deployment\<close>;
  otherwise one that contains \<^verbatim>\<open>nonce\<close> gives the nonce message; otherwise one that
  contains \<^verbatim>\<open>gas\<close> gives the gas message; any other message is passed on as it is.
\<close>

theorem deployment_failure_classified_and_rethrown:
  "selectedContract st = Some sel \<Longrightarrow> sel \<noteq> [] \<Longrightarrow> map_of (contracts st) sel = Some contract \<Longrightarrow>
   find (\<lambda>item. abi_type item = ''constructor'') (abi contract) = Some constructor \<Longrightarrow>
   try_deploy lib (rpcConfig st) contract constructor vs (ethers_calls st) = (Inl error, calls) \<Longrightarrow>
     handleDeploy lib now vs st =
       (st\<lparr>ethers_calls := calls, toasts := toasts st @ [Toast_error (errorMessage error)]\<rparr>,
        Rejected error) \<and>
     errorMessage error =
       (if \<not> instanceof_Error error then ''Failed to deploy contract''
        else if \<exists>pre post. message error = pre @ ''insufficient funds'' @ post
          then ''Insufficient funds for deployment''
        else if \<exists>pre post. message error = pre @ ''nonce'' @ post
          then ''Transaction nonce error. Please try again''
        else if \<exists>pre post. message error = pre @ ''gas'' @ post
          then ''Gas estimation failed. Check constructor arguments''
        else message error)"
  by (simp add: handleDeploy_def falsy_def toast_error_def errorMessage_def includes_str_iff)

theorem deployment_failure_classified_and_rethrown_witness:
  "handleDeploy empty_wallet_network ''2024-05-01T12:00:00.000Z'' Token_values
      (example_view (Some ''Token.json'')) =
     ((example_view (Some ''Token.json''))
        \<lparr>ethers_calls :=
           [New_JsonRpcProvider ''http://localhost:8545'', New_Wallet ''0x01'',
            New_ContractFactory,
            Call_deploy [Arg_string ''0xABC'', Arg_bigint 1000, Arg_bool True]],
         toasts := [Toast_error ''Insufficient funds for deployment'']\<rparr>,
      Rejected (Error ''insufficient funds for gas * price + value (nonce 0)''))"
proof -
  have sel: "selectedContract (example_view (Some ''Token.json'')) = Some ''Token.json''"
    and ne: "''Token.json'' \<noteq> []"
    and con: "map_of (contracts (example_view (Some ''Token.json''))) ''Token.json'' = Some Token_build"
    and ctor: "find (\<lambda>item. abi_type item = ''constructor'') (abi Token_build) = Some Token_constructor"
    by (simp_all add: example_view_def Token_build_def Token_constructor_def)
  have attempt: "try_deploy empty_wallet_network (rpcConfig (example_view (Some ''Token.json'')))
      Token_build Token_constructor Token_values (ethers_calls (example_view (Some ''Token.json''))) =
     (Inl (Error ''insufficient funds for gas * price + value (nonce 0)''),
      [New_JsonRpcProvider ''http://localhost:8545'', New_Wallet ''0x01'', New_ContractFactory,
       Call_deploy [Arg_string ''0xABC'', Arg_bigint 1000, Arg_bool True]])"
    using empty_wallet_try_deploy by (simp add: example_view_def)
  have msg: "errorMessage (Error ''insufficient funds for gas * price + value (nonce 0)'') =
      ''Insufficient funds for deployment''"
    by (simp add: errorMessage_def startsWith_def)
  from deployment_failure_classified_and_rethrown [OF sel ne con ctor attempt, of "''2024-05-01T12:00:00.000Z''"] msg
  show ?thesis by (simp add: example_view_def)
qed

text \<open>
  The claim as it is stated fails: a message that contains \<^verbatim>\<open>nonce\<close> and \<^verbatim>\<open>gas\<close> does not
  get the nonce message or the gas message when it also contains
  \<^verbatim>\<open>insufficient funds\<close>, and a thrown value that is not an \<^verbatim>\<open>Error\<close> gets a fixed
  message, not its own.
\<close>

theorem errorMessage_precedence_counterexample:
  "includes_str ''insufficient funds for gas * price + value (nonce 0)'' ''nonce'' \<and>
   includes_str ''insufficient funds for gas * price + value (nonce 0)'' ''gas'' \<and>
   errorMessage (Error ''insufficient funds for gas * price + value (nonce 0)'') \<noteq>
     ''Transaction nonce error. Please try again'' \<and>
   errorMessage (Error ''insufficient funds for gas * price + value (nonce 0)'') \<noteq>
     ''Gas estimation failed. Check constructor arguments'' \<and>
   errorMessage (NonError ''execution reverted'') \<noteq> ''execution reverted'' \<and>
   errorMessage (NonError ''execution reverted'') = ''Failed to deploy contract''"
  by (simp add: errorMessage_def startsWith_def)

lemma map_throwing_Inr_nth:
  "map_throwing f xs = Inr ys \<Longrightarrow>
     length ys = length xs \<and> (\<forall>i < length xs. f (xs ! i) = Inr (ys ! i))"
proof (induction xs arbitrary: ys)
  case Nil
  then show ?case by simp
next
  case (Cons x xs)
  from Cons.prems obtain y ys' where fx: "f x = Inr y" and rest: "map_throwing f xs = Inr ys'"
    and ys: "ys = y # ys'"
    by (auto split: sum.splits)
  from Cons.IH [OF rest] fx ys show ?case
    by (auto simp: nth_Cons split: nat.splits)
qed

lemma map_throwing_succeeds:
  "\<forall>x \<in> set xs. \<exists>y. f x = Inr y \<Longrightarrow> \<exists>ys. map_throwing f xs = Inr ys"
proof (induction xs)
  case Nil
  then show ?case by simp
next
  case (Cons x xs)
  then obtain y ys where "f x = Inr y" "map_throwing f xs = Inr ys" by auto
  then show ?case by simp
qed

lemma map_throwing_fails:
  "\<exists>x \<in> set xs. \<exists>e. f x = Inl e \<Longrightarrow>
     \<exists>x \<in> set xs. \<exists>e. f x = Inl e \<and> map_throwing f xs = Inl e"
proof (induction xs)
  case Nil
  then show ?case by simp
next
  case (Cons x xs)
  show ?case
  proof (cases "f x")
    case (Inl e)
    then show ?thesis by auto
  next
    case (Inr y)
    with Cons.prems have "\<exists>x \<in> set xs. \<exists>e. f x = Inl e" by auto
    from Cons.IH [OF this] obtain x' e where "x' \<in> set xs" "f x' = Inl e"
      "map_throwing f xs = Inl e" by blast
    with Inr show ?thesis by auto
  qed
qed

lemma try_deploy_without_arguments:
  assumes "constructorArgs_of constructor vs = Inl e"
  shows "\<exists>e' made. try_deploy lib config contract constructor vs calls = (Inl e', calls @ made) \<and>
     (\<forall>args. Call_deploy args \<notin> set made)"
proof (cases "JsonRpcProvider lib (url config)")
  case (Inl e1)
  then have "try_deploy lib config contract constructor vs calls =
      (Inl e1, calls @ [New_JsonRpcProvider (url config)])"
    by (simp add: try_deploy_def and_then_def library_call_def)
  then show ?thesis by auto
next
  case provider: (Inr provider)
  show ?thesis
  proof (cases "Wallet lib (privateKey config) provider")
    case (Inl e2)
    with provider have "try_deploy lib config contract constructor vs calls =
        (Inl e2, calls @ [New_JsonRpcProvider (url config), New_Wallet (privateKey config)])"
      by (simp add: try_deploy_def and_then_def library_call_def)
    then show ?thesis by auto
  next
    case wallet: (Inr wallet)
    show ?thesis
    proof (cases "ContractFactory lib (abi contract) (bytecode contract) wallet")
      case (Inl e3)
      with provider wallet have "try_deploy lib config contract constructor vs calls =
          (Inl e3, calls @ [New_JsonRpcProvider (url config), New_Wallet (privateKey config),
                            New_ContractFactory])"
        by (simp add: try_deploy_def and_then_def library_call_def)
      then show ?thesis by auto
    next
      case (Inr factory)
      with provider wallet assms have "try_deploy lib config contract constructor vs calls =
          (Inl e, calls @ [New_JsonRpcProvider (url config), New_Wallet (privateKey config),
                           New_ContractFactory])"
        by (simp add: try_deploy_def and_then_def library_call_def local_step_def)
      then show ?thesis by auto
    qed
  qed
qed

lemma coerce_Inl:
  "coerce vs input = Inl e \<longleftrightarrow>
     type input = ''uint256'' \<and> BigInt (get_value vs (name input)) = Inl e"
  by (auto simp: coerce_def Let_def split: sum.splits)

lemma BigInt_Inr:
  "BigInt v = Inr n \<longleftrightarrow> (\<exists>s. v = String_value s \<and> StringToBigInt s = Some n)"
  by (auto simp: BigInt_def split: property_read.splits option.splits)

lemma BigInt_Inl:
  "BigInt v = Inl e \<longleftrightarrow>
     (case v of
        String_value s \<Rightarrow>
          StringToBigInt s = None \<and> e = SyntaxError (''Cannot convert '' @ s @ '' to a BigInt'')
      | Prototype_member key \<Rightarrow>
          e = SyntaxError (''Cannot convert '' @ member_text key @ '' to a BigInt'')
      | Undefined_value \<Rightarrow> e = TypeError ''Cannot convert undefined to a BigInt'')"
  by (auto simp: BigInt_def split: property_read.splits option.splits)

lemma coerce_Inr:
  "coerce vs input = Inr a \<longleftrightarrow>
     (if type input = ''uint256''
      then \<exists>s n. get_value vs (name input) = String_value s \<and> StringToBigInt s = Some n \<and>
             a = Arg_bigint n
      else if type input = ''bool'' then a = Arg_bool (get_value vs (name input) = String_value ''true'')
      else a = as_read (get_value vs (name input)))"
  by (auto simp: coerce_def Let_def BigInt_def split: property_read.splits option.splits)

text \<open>
  Claim C1, as amended.  When the value of every \<^verbatim>\<open>uint256\<close> parameter is a string that
  \<^verbatim>\<open>BigInt\<close> accepts, the coercion yields one argument per constructor parameter, in the
  declared order of the parameters: for \<^verbatim>\<open>uint256\<close> the integer the string denotes, for
  \<^verbatim>\<open>bool\<close> true exactly when the value is the string \<^verbatim>\<open>true\<close>, and for \<^verbatim>\<open>address\<close>,
  \<^verbatim>\<open>string\<close> and every other type the value as it was read, so a string is passed
  through unchanged; and once provider, wallet and factory have been made, this list is
  what \<^verbatim>\<open>factory.deploy\<close> is called with.  When the value of some \<^verbatim>\<open>uint256\<close> parameter
  is not such a string, the coercion throws what \<^verbatim>\<open>BigInt\<close> throws for such a parameter (a
  \<open>SyntaxError\<close> for a string that \<^verbatim>\<open>BigInt\<close> rejects, a \<open>TypeError\<close> for \<^verbatim>\<open>undefined\<close>):
  no argument list is made, the \<^verbatim>\<open>try\<close> block fails, and \<^verbatim>\<open>factory.deploy\<close> is not called.
\<close>

theorem constructor_arguments_coerced_by_declared_type:
  "((\<forall>input \<in> set (inputs constructor).
       type input = ''uint256'' \<longrightarrow>
         (\<exists>s n. get_value vs (name input) = String_value s \<and> StringToBigInt s = Some n)) \<longrightarrow>
    (\<exists>args.
       constructorArgs_of constructor vs = Inr args \<and>
       length args = length (inputs constructor) \<and>
       (\<forall>i < length (inputs constructor).
          let input = inputs constructor ! i; v = get_value vs (name input) in
          if type input = ''uint256'' then
            \<exists>s n. v = String_value s \<and> StringToBigInt s = Some n \<and> args ! i = Arg_bigint n
          else if type input = ''bool'' then args ! i = Arg_bool (v = String_value ''true'')
          else
            (case v of
               String_value s \<Rightarrow> args ! i = Arg_string s
             | Prototype_member key \<Rightarrow> args ! i = Arg_prototype_member key
             | Undefined_value \<Rightarrow> args ! i = Arg_undefined)) \<and>
       (JsonRpcProvider lib (url config) = Inr provider \<and>
        Wallet lib (privateKey config) provider = Inr wallet \<and>
        ContractFactory lib (abi contract) (bytecode contract) wallet = Inr factory \<longrightarrow>
          (\<exists>r rest. try_deploy lib config contract constructor vs calls =
             (r, calls @ [New_JsonRpcProvider (url config), New_Wallet (privateKey config),
                          New_ContractFactory, Call_deploy args] @ rest))))) \<and>
   ((\<exists>input \<in> set (inputs constructor).
       type input = ''uint256'' \<and>
       \<not> (\<exists>s n. get_value vs (name input) = String_value s \<and> StringToBigInt s = Some n)) \<longrightarrow>
    (\<exists>bad \<in> set (inputs constructor).
       type bad = ''uint256'' \<and>
       (case get_value vs (name bad) of
          String_value s \<Rightarrow>
            StringToBigInt s = None \<and>
            constructorArgs_of constructor vs =
              Inl (SyntaxError (''Cannot convert '' @ s @ '' to a BigInt''))
        | Prototype_member key \<Rightarrow>
            constructorArgs_of constructor vs =
              Inl (SyntaxError (''Cannot convert '' @ member_text key @ '' to a BigInt''))
        | Undefined_value \<Rightarrow>
            constructorArgs_of constructor vs =
              Inl (TypeError ''Cannot convert undefined to a BigInt''))) \<and>
    (\<exists>e made. try_deploy lib config contract constructor vs calls = (Inl e, calls @ made) \<and>
       (\<forall>args. Call_deploy args \<notin> set made)))"
proof (intro conjI impI)
  assume ok: "\<forall>input \<in> set (inputs constructor).
       type input = ''uint256'' \<longrightarrow>
         (\<exists>s n. get_value vs (name input) = String_value s \<and> StringToBigInt s = Some n)"
  have "\<forall>input \<in> set (inputs constructor). \<exists>a. coerce vs input = Inr a"
  proof
    fix input assume "input \<in> set (inputs constructor)"
    with ok show "\<exists>a. coerce vs input = Inr a"
      by (cases "type input = ''uint256''") (auto simp: coerce_Inr)
  qed
  then obtain args where args: "constructorArgs_of constructor vs = Inr args"
    unfolding constructorArgs_of_def using map_throwing_succeeds by blast
  then have len: "length args = length (inputs constructor)"
    and each: "\<forall>i < length (inputs constructor).
      coerce vs (inputs constructor ! i) = Inr (args ! i)"
    unfolding constructorArgs_of_def using map_throwing_Inr_nth by blast+
  have positional: "\<forall>i < length (inputs constructor).
          let input = inputs constructor ! i; v = get_value vs (name input) in
          if type input = ''uint256'' then
            \<exists>s n. v = String_value s \<and> StringToBigInt s = Some n \<and> args ! i = Arg_bigint n
          else if type input = ''bool'' then args ! i = Arg_bool (v = String_value ''true'')
          else
            (case v of
               String_value s \<Rightarrow> args ! i = Arg_string s
             | Prototype_member key \<Rightarrow> args ! i = Arg_prototype_member key
             | Undefined_value \<Rightarrow> args ! i = Arg_undefined)"
  proof (intro allI impI)
    fix i assume "i < length (inputs constructor)"
    with each have "coerce vs (inputs constructor ! i) = Inr (args ! i)" by simp
    then show "let input = inputs constructor ! i; v = get_value vs (name input) in
          if type input = ''uint256'' then
            \<exists>s n. v = String_value s \<and> StringToBigInt s = Some n \<and> args ! i = Arg_bigint n
          else if type input = ''bool'' then args ! i = Arg_bool (v = String_value ''true'')
          else
            (case v of
               String_value s \<Rightarrow> args ! i = Arg_string s
             | Prototype_member key \<Rightarrow> args ! i = Arg_prototype_member key
             | Undefined_value \<Rightarrow> args ! i = Arg_undefined)"
      unfolding Let_def coerce_Inr
      by (cases "get_value vs (name (inputs constructor ! i))") (simp_all split: if_splits)
  qed
  have call: "JsonRpcProvider lib (url config) = Inr provider \<and>
        Wallet lib (privateKey config) provider = Inr wallet \<and>
        ContractFactory lib (abi contract) (bytecode contract) wallet = Inr factory \<longrightarrow>
          (\<exists>r rest. try_deploy lib config contract constructor vs calls =
             (r, calls @ [New_JsonRpcProvider (url config), New_Wallet (privateKey config),
                          New_ContractFactory, Call_deploy args] @ rest))"
  proof (intro impI, elim conjE)
    assume "JsonRpcProvider lib (url config) = Inr provider"
      and "Wallet lib (privateKey config) provider = Inr wallet"
      and "ContractFactory lib (abi contract) (bytecode contract) wallet = Inr factory"
    then show "\<exists>r rest. try_deploy lib config contract constructor vs calls =
             (r, calls @ [New_JsonRpcProvider (url config), New_Wallet (privateKey config),
                          New_ContractFactory, Call_deploy args] @ rest)"
      using args by (rule try_deploy_calls_deploy)
  qed
  from args len positional call
  show "\<exists>args.
       constructorArgs_of constructor vs = Inr args \<and>
       length args = length (inputs constructor) \<and>
       (\<forall>i < length (inputs constructor).
          let input = inputs constructor ! i; v = get_value vs (name input) in
          if type input = ''uint256'' then
            \<exists>s n. v = String_value s \<and> StringToBigInt s = Some n \<and> args ! i = Arg_bigint n
          else if type input = ''bool'' then args ! i = Arg_bool (v = String_value ''true'')
          else
            (case v of
               String_value s \<Rightarrow> args ! i = Arg_string s
             | Prototype_member key \<Rightarrow> args ! i = Arg_prototype_member key
             | Undefined_value \<Rightarrow> args ! i = Arg_undefined)) \<and>
       (JsonRpcProvider lib (url config) = Inr provider \<and>
        Wallet lib (privateKey config) provider = Inr wallet \<and>
        ContractFactory lib (abi contract) (bytecode contract) wallet = Inr factory \<longrightarrow>
          (\<exists>r rest. try_deploy lib config contract constructor vs calls =
             (r, calls @ [New_JsonRpcProvider (url config), New_Wallet (privateKey config),
                          New_ContractFactory, Call_deploy args] @ rest)))"
    by blast
next
  assume "\<exists>input \<in> set (inputs constructor).
       type input = ''uint256'' \<and>
       \<not> (\<exists>s n. get_value vs (name input) = String_value s \<and> StringToBigInt s = Some n)"
  then obtain input where mem: "input \<in> set (inputs constructor)"
    and ty: "type input = ''uint256''"
    and no: "\<not> (\<exists>s n. get_value vs (name input) = String_value s \<and> StringToBigInt s = Some n)"
    by blast
  from no have "\<exists>e. BigInt (get_value vs (name input)) = Inl e"
    by (cases "BigInt (get_value vs (name input))") (auto simp: BigInt_Inr)
  with ty have "\<exists>e. coerce vs input = Inl e" by (simp add: coerce_Inl)
  with mem have "\<exists>x \<in> set (inputs constructor). \<exists>e. coerce vs x = Inl e" by blast
  from map_throwing_fails [OF this] obtain bad e where bad: "bad \<in> set (inputs constructor)"
    and thrown: "coerce vs bad = Inl e" and result: "constructorArgs_of constructor vs = Inl e"
    unfolding constructorArgs_of_def by blast
  from thrown have bty: "type bad = ''uint256''" and big: "BigInt (get_value vs (name bad)) = Inl e"
    by (simp_all add: coerce_Inl)
  from big result have "case get_value vs (name bad) of
          String_value s \<Rightarrow>
            StringToBigInt s = None \<and>
            constructorArgs_of constructor vs =
              Inl (SyntaxError (''Cannot convert '' @ s @ '' to a BigInt''))
        | Prototype_member key \<Rightarrow>
            constructorArgs_of constructor vs =
              Inl (SyntaxError (''Cannot convert '' @ member_text key @ '' to a BigInt''))
        | Undefined_value \<Rightarrow>
            constructorArgs_of constructor vs =
              Inl (TypeError ''Cannot convert undefined to a BigInt'')"
    by (simp add: BigInt_Inl split: property_read.splits)
  with bad bty show "\<exists>bad \<in> set (inputs constructor).
       type bad = ''uint256'' \<and>
       (case get_value vs (name bad) of
          String_value s \<Rightarrow>
            StringToBigInt s = None \<and>
            constructorArgs_of constructor vs =
              Inl (SyntaxError (''Cannot convert '' @ s @ '' to a BigInt''))
        | Prototype_member key \<Rightarrow>
            constructorArgs_of constructor vs =
              Inl (SyntaxError (''Cannot convert '' @ member_text key @ '' to a BigInt''))
        | Undefined_value \<Rightarrow>
            constructorArgs_of constructor vs =
              Inl (TypeError ''Cannot convert undefined to a BigInt''))"
    by blast
  from result show "\<exists>e made. try_deploy lib config contract constructor vs calls =
      (Inl e, calls @ made) \<and> (\<forall>args. Call_deploy args \<notin> set made)"
    by (rule try_deploy_without_arguments)
qed

lemma fraction_StringToBigInt: "StringToBigInt ''12.5'' = None"
  by (simp add: StringToBigInt_def trim_def is_whitespace_def startsWith_def all_digits_def
      is_digit_def digit_of_def)

theorem constructor_arguments_coerced_by_declared_type_witness:
  "constructorArgs_of Token_constructor Token_values =
     Inr [Arg_string ''0xABC'', Arg_bigint 1000, Arg_bool True] \<and>
   (\<exists>r rest. try_deploy test_network local_node Token_build Token_constructor Token_values [] =
      (r, [New_JsonRpcProvider ''http://localhost:8545'', New_Wallet ''0x01'',
           New_ContractFactory,
           Call_deploy [Arg_string ''0xABC'', Arg_bigint 1000, Arg_bool True]] @ rest)) \<and>
   constructorArgs_of Token_constructor
     [(''owner'', ''0xABC''), (''amount'', ''12.5''), (''active'', ''true'')] =
     Inl (SyntaxError ''Cannot convert 12.5 to a BigInt'')"
proof -
  note T = constructor_arguments_coerced_by_declared_type [of Token_constructor Token_values test_network local_node "()" "()"
      Token_build "()" "[]"]
  note F = constructor_arguments_coerced_by_declared_type [of Token_constructor
      "[(''owner'', ''0xABC''), (''amount'', ''12.5''), (''active'', ''true'')]"
      test_network local_node "()" "()" Token_build "()" "[]"]
  have ins: "inputs Token_constructor =
      [\<lparr> name = ''owner'', type = ''address'', internalType = ''address'' \<rparr>,
       \<lparr> name = ''amount'', type = ''uint256'', internalType = ''uint256'' \<rparr>,
       \<lparr> name = ''active'', type = ''bool'', internalType = ''bool'' \<rparr>]"
    by (simp add: Token_constructor_def)
  have reads: "get_value Token_values ''owner'' = String_value ''0xABC''"
    "get_value Token_values ''amount'' = String_value ''1000''"
    "get_value Token_values ''active'' = String_value ''true''"
    by (simp_all add: get_value_def Token_values_def)
  have "\<forall>input \<in> set (inputs Token_constructor).
       type input = ''uint256'' \<longrightarrow>
         (\<exists>s n. get_value Token_values (name input) = String_value s \<and> StringToBigInt s = Some n)"
    by (simp add: ins reads Token_StringToBigInt)
  from mp [OF T [THEN conjunct1] this] obtain args where
    args: "constructorArgs_of Token_constructor Token_values = Inr args"
    and len: "length args = length (inputs Token_constructor)"
    and each: "\<forall>i < length (inputs Token_constructor).
          let input = inputs Token_constructor ! i; v = get_value Token_values (name input) in
          if type input = ''uint256'' then
            \<exists>s n. v = String_value s \<and> StringToBigInt s = Some n \<and> args ! i = Arg_bigint n
          else if type input = ''bool'' then args ! i = Arg_bool (v = String_value ''true'')
          else
            (case v of
               String_value s \<Rightarrow> args ! i = Arg_string s
             | Prototype_member key \<Rightarrow> args ! i = Arg_prototype_member key
             | Undefined_value \<Rightarrow> args ! i = Arg_undefined)"
    and call: "JsonRpcProvider test_network (url local_node) = Inr () \<and>
        Wallet test_network (privateKey local_node) () = Inr () \<and>
        ContractFactory test_network (abi Token_build) (bytecode Token_build) () = Inr () \<longrightarrow>
          (\<exists>r rest. try_deploy test_network local_node Token_build Token_constructor
              Token_values [] =
             (r, [] @ [New_JsonRpcProvider (url local_node), New_Wallet (privateKey local_node),
                          New_ContractFactory, Call_deploy args] @ rest))"
    by blast
  from each [rule_format, of 0] have a0: "args ! 0 = Arg_string ''0xABC''"
    by (simp add: ins reads)
  from each [rule_format, of 1] have a1: "args ! 1 = Arg_bigint 1000"
    by (simp add: ins reads Token_StringToBigInt)
  from each [rule_format, of 2] have a2: "args ! 2 = Arg_bool True"
    by (simp add: ins reads)
  from len have "length args = 3" by (simp add: ins)
  then have "args = [args ! 0, args ! 1, args ! 2]"
    by (auto simp: list_eq_iff_nth_eq less_Suc_eq numeral_3_eq_3 numeral_2_eq_2)
  with a0 a1 a2 have list: "args = [Arg_string ''0xABC'', Arg_bigint 1000, Arg_bool True]"
    by simp
  have ok: "constructorArgs_of Token_constructor Token_values =
     Inr [Arg_string ''0xABC'', Arg_bigint 1000, Arg_bool True]"
    using args list by simp
  have made: "\<exists>r rest. try_deploy test_network local_node Token_build Token_constructor
      Token_values [] =
      (r, [New_JsonRpcProvider ''http://localhost:8545'', New_Wallet ''0x01'',
           New_ContractFactory,
           Call_deploy [Arg_string ''0xABC'', Arg_bigint 1000, Arg_bool True]] @ rest)"
    using call list by (simp add: test_network_def local_node_def)
  have bad_reads:
    "get_value [(''owner'', ''0xABC''), (''amount'', ''12.5''), (''active'', ''true'')] ''amount'' =
       String_value ''12.5''"
    by (simp add: get_value_def)
  have "\<exists>input \<in> set (inputs Token_constructor).
       type input = ''uint256'' \<and>
       \<not> (\<exists>s n. get_value [(''owner'', ''0xABC''), (''amount'', ''12.5''), (''active'', ''true'')]
                  (name input) = String_value s \<and> StringToBigInt s = Some n)"
    by (simp add: ins bad_reads fraction_StringToBigInt)
  from mp [OF F [THEN conjunct2] this] have
    "\<exists>bad \<in> set (inputs Token_constructor).
       type bad = ''uint256'' \<and>
       (case get_value [(''owner'', ''0xABC''), (''amount'', ''12.5''), (''active'', ''true'')]
               (name bad) of
          String_value s \<Rightarrow>
            StringToBigInt s = None \<and>
            constructorArgs_of Token_constructor
              [(''owner'', ''0xABC''), (''amount'', ''12.5''), (''active'', ''true'')] =
              Inl (SyntaxError (''Cannot convert '' @ s @ '' to a BigInt''))
        | Prototype_member key \<Rightarrow>
            constructorArgs_of Token_constructor
              [(''owner'', ''0xABC''), (''amount'', ''12.5''), (''active'', ''true'')] =
              Inl (SyntaxError (''Cannot convert '' @ member_text key @ '' to a BigInt''))
        | Undefined_value \<Rightarrow>
            constructorArgs_of Token_constructor
              [(''owner'', ''0xABC''), (''amount'', ''12.5''), (''active'', ''true'')] =
              Inl (TypeError ''Cannot convert undefined to a BigInt''))"
    by blast
  then have failing: "constructorArgs_of Token_constructor
     [(''owner'', ''0xABC''), (''amount'', ''12.5''), (''active'', ''true'')] =
     Inl (SyntaxError ''Cannot convert 12.5 to a BigInt'')"
    by (simp add: ins bad_reads)
  from ok made failing show ?thesis by blast
qed

text \<open>
  The claim as it is stated fails for a \<^verbatim>\<open>uint256\<close> value that is not integer text:
  \<^verbatim>\<open>BigInt("1e3")\<close> throws, no argument list is made, \<^verbatim>\<open>factory.deploy\<close> is not called,
  and the deployment fails with the message of the \<open>SyntaxError\<close>.
\<close>

theorem uint256_text_not_an_integer_counterexample:
  "constructorArgs_of Token_constructor
     [(''owner'', ''0xABC''), (''amount'', ''1e3''), (''active'', ''true'')] =
     Inl (SyntaxError ''Cannot convert 1e3 to a BigInt'') \<and>
   handleDeploy test_network ''2024-05-01T12:00:00.000Z''
     [(''owner'', ''0xABC''), (''amount'', ''1e3''), (''active'', ''true'')]
     (example_view (Some ''Token.json'')) =
     ((example_view (Some ''Token.json''))
        \<lparr>ethers_calls :=
           [New_JsonRpcProvider ''http://localhost:8545'', New_Wallet ''0x01'',
            New_ContractFactory],
         toasts := [Toast_error ''Cannot convert 1e3 to a BigInt'']\<rparr>,
      Rejected (SyntaxError ''Cannot convert 1e3 to a BigInt''))"
proof -
  have args: "constructorArgs_of Token_constructor
     [(''owner'', ''0xABC''), (''amount'', ''1e3''), (''active'', ''true'')] =
     Inl (SyntaxError ''Cannot convert 1e3 to a BigInt'')"
    by (simp add: constructorArgs_of_def Token_constructor_def coerce_def get_value_def
        BigInt_def StringToBigInt_def trim_def is_whitespace_def startsWith_def all_digits_def
        is_digit_def digit_of_def)
  have "try_deploy test_network local_node Token_build Token_constructor
      [(''owner'', ''0xABC''), (''amount'', ''1e3''), (''active'', ''true'')] [] =
     (Inl (SyntaxError ''Cannot convert 1e3 to a BigInt''),
      [New_JsonRpcProvider ''http://localhost:8545'', New_Wallet ''0x01'', New_ContractFactory])"
    by (simp add: try_deploy_def and_then_def library_call_def local_step_def
        test_network_def args local_node_def)
  then have "handleDeploy test_network ''2024-05-01T12:00:00.000Z''
     [(''owner'', ''0xABC''), (''amount'', ''1e3''), (''active'', ''true'')]
     (example_view (Some ''Token.json'')) =
     ((example_view (Some ''Token.json''))
        \<lparr>ethers_calls :=
           [New_JsonRpcProvider ''http://localhost:8545'', New_Wallet ''0x01'',
            New_ContractFactory],
         toasts := [Toast_error ''Cannot convert 1e3 to a BigInt'']\<rparr>,
      Rejected (SyntaxError ''Cannot convert 1e3 to a BigInt''))"
    by (simp add: handleDeploy_def example_view_def falsy_def Token_build_def
        Token_constructor_def toast_error_def errorMessage_def startsWith_def)
  with args show ?thesis by simp
qed

section \<open>Properties of hydration and persistence\<close>

lemma json_value_FormValues: "json_value (js_of_FormValues vs) = js_of_FormValues vs"
  by (simp add: js_of_FormValues_def case_prod_unfold)

lemma json_value_DeployedContract:
  "json_value (js_of_DeployedContract d) = js_of_DeployedContract d"
  using json_value_FormValues [of "constructorArgs d"]
  by (simp add: js_of_DeployedContract_def)

lemma json_value_DeployedContracts:
  "json_value (js_of_DeployedContracts ds) = js_of_DeployedContracts ds"
  by (simp add: js_of_DeployedContracts_def json_value_DeployedContract)

lemma json_value_RPCConfig:
  "json_value (js_of_RPCConfig c) =
     Object [(''url'', Str (url c)),
             (''chainId'', (case chainId c of Num n \<Rightarrow> Number (Num n) | _ \<Rightarrow> Null)),
             (''privateKey'', Str (privateKey c))]"
  by (cases "chainId c") (simp_all add: js_of_RPCConfig_def)

lemma initial_rpcConfig_saved:
  "initial_rpcConfig (save_rpcConfig c storage) = Inr (json_value (js_of_RPCConfig c))"
  by (simp add: initial_rpcConfig_def save_rpcConfig_def getItem_def setItem_def
      JSON_stringify_def)

text \<open>
  Claim C5, as amended.  Saving a configuration whose chain identifier is a finite number
  and reading it back at startup gives the same value, and so does saving and reading
  back any deployment history.  A configuration whose chain identifier is \<open>NaN\<close> (or an
  infinity) comes back with the chain identifier \<^verbatim>\<open>null\<close>.
\<close>

theorem persistence_round_trip:
  "(chainId c = Num n \<longrightarrow>
      initial_rpcConfig (save_rpcConfig c storage) = Inr (js_of_RPCConfig c)) \<and>
   (chainId c \<in> {NaN, PosInfinity, NegInfinity} \<longrightarrow>
      initial_rpcConfig (save_rpcConfig c storage) =
        Inr (Object [(''url'', Str (url c)), (''chainId'', Null),
                     (''privateKey'', Str (privateKey c))])) \<and>
   initial_deployedContracts (save_deployedContracts ds storage) =
     Inr (js_of_DeployedContracts ds)"
proof (intro conjI impI)
  assume "chainId c = Num n"
  then show "initial_rpcConfig (save_rpcConfig c storage) = Inr (js_of_RPCConfig c)"
    by (simp add: initial_rpcConfig_saved json_value_RPCConfig js_of_RPCConfig_def)
next
  assume "chainId c \<in> {NaN, PosInfinity, NegInfinity}"
  then show "initial_rpcConfig (save_rpcConfig c storage) =
        Inr (Object [(''url'', Str (url c)), (''chainId'', Null),
                     (''privateKey'', Str (privateKey c))])"
    by (auto simp add: initial_rpcConfig_saved json_value_RPCConfig)
next
  show "initial_deployedContracts (save_deployedContracts ds storage) =
     Inr (js_of_DeployedContracts ds)"
    by (simp add: initial_deployedContracts_def save_deployedContracts_def getItem_def
        setItem_def JSON_stringify_def json_value_DeployedContracts)
qed

theorem persistence_round_trip_witness:
  "initial_rpcConfig (save_rpcConfig local_node Map.empty) = Inr (js_of_RPCConfig local_node) \<and>
   initial_deployedContracts (save_deployedContracts [first_deployment] Map.empty) =
     Inr (js_of_DeployedContracts [first_deployment])"
  using persistence_round_trip [of local_node 31337 Map.empty "[first_deployment]"]
  by (simp add: local_node_def)

text \<open>
  The claim as it is stated fails at the configuration the editor emits for the chain
  identifier text \<^verbatim>\<open>abc\<close>: its chain identifier is \<open>NaN\<close>, which is saved as \<^verbatim>\<open>null\<close>.
\<close>

lemma parseInt_abc: "parseInt ''abc'' = NaN"
  by (simp add: parseInt_def startsWith_def is_whitespace_def is_digit_def digit_of_def)

theorem NaN_chainId_round_trip_counterexample:
  "chainId (RPCSettings_onChange default_rpcConfig (Edit_chainId ''abc'')) = NaN \<and>
   initial_rpcConfig
     (save_rpcConfig (RPCSettings_onChange default_rpcConfig (Edit_chainId ''abc'')) Map.empty) \<noteq>
   Inr (js_of_RPCConfig (RPCSettings_onChange default_rpcConfig (Edit_chainId ''abc'')))"
  by (simp add: initial_rpcConfig_saved json_value_RPCConfig js_of_RPCConfig_def parseInt_abc
      default_rpcConfig_def)

text \<open>
  Claim C6, as amended.  At startup \<^verbatim>\<open>rpcConfig\<close> is read from the local-storage key
  \<^verbatim>\<open>rpcConfig\<close>: when the entry is absent (or the empty string) it is
  \<^verbatim>\<open>{url: "", chainId: 1, privateKey: ""}\<close>; when the entry is JSON text it is the value
  the text denotes; when the entry is any other text, the initialiser throws the
  \<open>SyntaxError\<close> of \<^verbatim>\<open>JSON.parse\<close> and there is no fallback.  The same holds for
  \<^verbatim>\<open>deployedContracts\<close> with the key \<^verbatim>\<open>deployedContracts\<close> and the empty list.
\<close>

theorem hydration_from_localStorage:
  "(getItem storage ''rpcConfig'' = None \<or> getItem storage ''rpcConfig'' = Some (NotJSON []) \<longrightarrow>
      initial_rpcConfig storage =
        Inr (Object [(''url'', Str []), (''chainId'', Number (Num 1)), (''privateKey'', Str [])])) \<and>
   (getItem storage ''rpcConfig'' = Some (JSONText v) \<longrightarrow> initial_rpcConfig storage = Inr v) \<and>
   (getItem storage ''rpcConfig'' = Some (NotJSON s) \<and> s \<noteq> [] \<longrightarrow>
      (\<exists>m. initial_rpcConfig storage = Inl (SyntaxError m))) \<and>
   (getItem storage ''deployedContracts'' = None \<or>
    getItem storage ''deployedContracts'' = Some (NotJSON []) \<longrightarrow>
      initial_deployedContracts storage = Inr (Array [])) \<and>
   (getItem storage ''deployedContracts'' = Some (JSONText v') \<longrightarrow>
      initial_deployedContracts storage = Inr v') \<and>
   (getItem storage ''deployedContracts'' = Some (NotJSON s') \<and> s' \<noteq> [] \<longrightarrow>
      (\<exists>m. initial_deployedContracts storage = Inl (SyntaxError m)))"
  by (auto simp: initial_rpcConfig_def initial_deployedContracts_def js_of_RPCConfig_def
      default_rpcConfig_def)

theorem hydration_from_localStorage_witness:
  "initial_rpcConfig saved_storage = Inr (js_of_RPCConfig local_node) \<and>
   initial_deployedContracts saved_storage = Inr (Array [])"
  using hydration_from_localStorage [of saved_storage "js_of_RPCConfig local_node"]
  by (simp add: saved_storage_def getItem_def)

text \<open>
  The claim as it is stated fails when the stored entries are not JSON text: neither
  initialiser falls back, both throw.
\<close>

theorem unparsable_entry_counterexample:
  "initial_rpcConfig corrupt_storage = Inl (SyntaxError ''Unexpected token in JSON: {url:'') \<and>
   initial_rpcConfig corrupt_storage \<noteq> Inr (js_of_RPCConfig default_rpcConfig) \<and>
   initial_deployedContracts corrupt_storage = Inl (SyntaxError ''Unexpected token in JSON: [{'') \<and>
   initial_deployedContracts corrupt_storage \<noteq> Inr (Array [])"
  by (simp add: initial_rpcConfig_def initial_deployedContracts_def corrupt_storage_def
      getItem_def)

end
